theory Spec2Isabelle
  imports Main "HOL-Library.Sublist"
begin

section \<open>wiki2anki: from article text to flashcards\<close>

text \<open>
  A shallow embedding of \<^verbatim>\<open>src/src/page.py\<close> (the object-oriented pipeline) and of the
  functions of \<^verbatim>\<open>src/src/source.py\<close> it duplicates. The collaborators that do
  input and output are parameters of the model:
  \<^item> the text that \<^verbatim>\<open>Page.get_text\<close> returns is a \<open>string\<close>;
  \<^item> the rows that \<^verbatim>\<open>pd.read_csv("../data/english_10000.csv")\<close> returns are a list of
    \<open>freq_row\<close>;
  \<^item> \<^verbatim>\<open>WiktionaryParser.fetch\<close> is a function from a word and a language to the entries
    it returns; a network failure of the parser is not modelled, and what \<^verbatim>\<open>print\<close>
    writes is not either.
  An exception that the source raises is a value of \<open>error\<close>: IndexError for an index
  out of range, TypeError for indexing or iterating over \<^verbatim>\<open>None\<close>.
\<close>

subsection \<open>Characters\<close>

text \<open>
  A Python \<^verbatim>\<open>str\<close> is a sequence of Unicode code points. A \<open>char\<close> of HOL is one of the
  code points 0 to 255 (Basic Latin and Latin-1 Supplement), so the model covers the
  texts written with those; the character classes below are the ones of Python 3 on that
  range.
\<close>

definition is_space :: "char \<Rightarrow> bool" where
  \<comment> \<open>\<^verbatim>\<open>\s\<close> of a \<^verbatim>\<open>str\<close> pattern: tab to carriage return, the four separators
      0x1C to 0x1F, space, NEL (0x85) and the no-break space (0xA0).\<close>
  "is_space c = (let n = (of_char c :: int) in
     (9 \<le> n \<and> n \<le> 13) \<or> (28 \<le> n \<and> n \<le> 32) \<or> n = 133 \<or> n = 160)"

definition is_alnum :: "char \<Rightarrow> bool" where
  \<comment> \<open>\<^verbatim>\<open>str.isalnum\<close> of one character: the digits and letters of ASCII, the ordinal
      indicators, the micro sign, the superscript digits, the vulgar fractions and the
      letters of Latin-1 (all of 0xC0 to 0xFF but the multiplication and division signs).\<close>
  "is_alnum c = (let n = (of_char c :: int) in
     (48 \<le> n \<and> n \<le> 57) \<or> (65 \<le> n \<and> n \<le> 90) \<or> (97 \<le> n \<and> n \<le> 122) \<or>
     n = 170 \<or> n = 178 \<or> n = 179 \<or> n = 181 \<or> n = 185 \<or> n = 186 \<or>
     (188 \<le> n \<and> n \<le> 190) \<or> (192 \<le> n \<and> n \<le> 214) \<or> (216 \<le> n \<and> n \<le> 246) \<or>
     (248 \<le> n \<and> n \<le> 255))"

definition is_word :: "char \<Rightarrow> bool" where
  \<comment> \<open>\<^verbatim>\<open>\w\<close> of a \<^verbatim>\<open>str\<close> pattern: an alphanumeric character or the underscore.\<close>
  "is_word c = (is_alnum c \<or> c = CHR ''_'')"

definition is_upper :: "char \<Rightarrow> bool" where
  \<comment> \<open>\<^verbatim>\<open>str.isupper\<close> of one character: A to Z and the capital letters of Latin-1.\<close>
  "is_upper c = (let n = (of_char c :: int) in
     (65 \<le> n \<and> n \<le> 90) \<or> (192 \<le> n \<and> n \<le> 214) \<or> (216 \<le> n \<and> n \<le> 222))"

definition lower_char :: "char \<Rightarrow> char" where
  \<comment> \<open>Each capital letter of the range has its small letter 32 code points later.\<close>
  "lower_char c = (if is_upper c then char_of ((of_char c :: int) + 32) else c)"

definition lower :: "string \<Rightarrow> string" where
  \<comment> \<open>\<^verbatim>\<open>str.lower\<close>\<close>
  "lower s = map lower_char s"

definition has_uppercase :: "string \<Rightarrow> bool" where
  \<comment> \<open>The specification's words: the word has an uppercase character.\<close>
  "has_uppercase s = list_ex is_upper s"

definition newline :: char where
  "newline = CHR 0x0A"

definition dquote :: char where
  "dquote = CHR 0x22"

subsection \<open>Exceptions and Python indexing\<close>

datatype error = IndexError | TypeError

definition py_index :: "'a list \<Rightarrow> int \<Rightarrow> 'a option" where
  \<comment> \<open>\<^verbatim>\<open>xs[i]\<close>: a negative index counts from the end; \<open>None\<close> is IndexError.\<close>
  "py_index xs i =
     (if 0 \<le> i \<and> i < int (length xs) then Some (xs ! nat i)
      else if i < 0 \<and> - int (length xs) \<le> i then Some (xs ! nat (int (length xs) + i))
      else None)"

subsection \<open>Cleaner\<close>

definition remove_punctuation :: "string \<Rightarrow> string" where
  \<comment> \<open>\<^verbatim>\<open>NON_ALNUM.sub("", string)\<close> with \<^verbatim>\<open>NON_ALNUM = re.compile(r"[^\w\s]")\<close>: every
      character that is neither \<^verbatim>\<open>\w\<close> nor \<^verbatim>\<open>\s\<close> is deleted.\<close>
  "remove_punctuation s = filter (\<lambda>c. is_word c \<or> is_space c) s"

function split_by_whitespace :: "string \<Rightarrow> string list" where
  \<comment> \<open>\<^verbatim>\<open>WHITESPACE.split(string)\<close> with \<^verbatim>\<open>WHITESPACE = re.compile(r"\s+")\<close>: the next
      match starts at the first whitespace character and takes the whole run; the piece
      before it is a token, and the text with no match left is the last token.\<close>
  "split_by_whitespace s =
     (case dropWhile (\<lambda>c. \<not> is_space c) s of
        [] \<Rightarrow> [s]
      | c # rest \<Rightarrow>
          takeWhile (\<lambda>c. \<not> is_space c) s # split_by_whitespace (dropWhile is_space rest))"
  by pat_completeness auto
termination
proof (relation "measure length")
  show "wf (measure length)" by simp
next
  fix s :: string and c rest
  assume "dropWhile (\<lambda>c. \<not> is_space c) s = c # rest"
  then have "length s \<ge> Suc (length rest)"
    using length_dropWhile_le [of "\<lambda>c. \<not> is_space c" s] by simp
  moreover have "length (dropWhile is_space rest) \<le> length rest"
    by (rule length_dropWhile_le)
  ultimately show "(dropWhile is_space rest, s) \<in> measure length" by simp
qed

declare split_by_whitespace.simps [simp del]

definition clean :: "string \<Rightarrow> string list" where
  \<comment> \<open>\<^verbatim>\<open>BasicEnglishCleaner.clean\<close>\<close>
  "clean s = split_by_whitespace (remove_punctuation s)"

definition tokenize_spec :: "string \<Rightarrow> string list" where
  \<comment> \<open>The specification's words: remove every character that is not alphanumeric or
      whitespace, then split on runs of whitespace.\<close>
  "tokenize_spec s = split_by_whitespace (filter (\<lambda>c. is_alnum c \<or> is_space c) s)"

subsection \<open>The data frame operations of the pipeline\<close>

fun duplicated :: "'a list \<Rightarrow> 'a list \<Rightarrow> bool list" where
  \<comment> \<open>\<^verbatim>\<open>Series.duplicated(keep="first")\<close>: a row is a duplicate when its value stands in
      an earlier row (\<open>seen\<close> holds the earlier rows).\<close>
  "duplicated seen [] = []"
| "duplicated seen (x # xs) = (x \<in> set seen) # duplicated (seen @ [x]) xs"

definition bitwise_not :: "bool list \<Rightarrow> bool list" where
  \<comment> \<open>\<^verbatim>\<open>~mask\<close>\<close>
  "bitwise_not msk = map Not msk"

definition boolean_index :: "'a list \<Rightarrow> bool list \<Rightarrow> 'a list" where
  \<comment> \<open>\<^verbatim>\<open>df[mask]\<close>: the rows whose mask is true, in their order.\<close>
  "boolean_index rows msk = map fst (filter snd (zip rows msk))"

definition drop_duplicates :: "'a list \<Rightarrow> 'a list" where
  \<comment> \<open>\<^verbatim>\<open>df.drop_duplicates("word")\<close>\<close>
  "drop_duplicates rows = boolean_index rows (bitwise_not (duplicated [] rows))"

definition head :: "int \<Rightarrow> 'a list \<Rightarrow> 'a list" where
  \<comment> \<open>\<^verbatim>\<open>df.head(n)\<close>, that is \<^verbatim>\<open>df.iloc[:n]\<close>: the first \<open>n\<close> rows, and for a negative
      \<open>n\<close> all rows but the last \<open>-n\<close>.\<close>
  "head n rows = (if 0 \<le> n then take (nat n) rows else take (nat (int (length rows) + n)) rows)"

definition isin :: "'a list \<Rightarrow> 'a list \<Rightarrow> bool list" where
  \<comment> \<open>\<^verbatim>\<open>column.isin(values)\<close>\<close>
  "isin column vals = map (\<lambda>v. v \<in> set vals) column"

definition mask_or :: "bool list \<Rightarrow> bool list \<Rightarrow> bool list" where
  \<comment> \<open>\<^verbatim>\<open>mask |= other\<close> of two masks over the same rows\<close>
  "mask_or m1 m2 = map (\<lambda>(a, b). a \<or> b) (zip m1 m2)"

subsection \<open>The frequency table\<close>

record freq_row =
  row_rank :: int
  row_word :: string
  row_count :: int

definition common_words :: "freq_row list \<Rightarrow> int \<Rightarrow> string list" where
  \<comment> \<open>The column \<^verbatim>\<open>word\<close> of \<^verbatim>\<open>pd.read_csv(...).head(n=top)\<close>\<close>
  "common_words table top_n = map row_word (head top_n table)"

definition common_mask :: "string list \<Rightarrow> string list \<Rightarrow> bool list" where
  \<comment> \<open>\<^verbatim>\<open>mask = df["word"].isin(common["word"])\<close>, then
      \<^verbatim>\<open>mask |= df["word"].str.lower().isin(common["word"])\<close>\<close>
  "common_mask common_col column =
     mask_or (isin column common_col) (isin (map lower column) common_col)"

definition remove_common :: "freq_row list \<Rightarrow> int \<Rightarrow> string list \<Rightarrow> string list" where
  \<comment> \<open>\<^verbatim>\<open>remove_common(df, top)\<close> of source.py, the table read from the file given\<close>
  "remove_common table top_n column =
     boolean_index column (bitwise_not (common_mask (common_words table top_n) column))"

definition is_common :: "freq_row list \<Rightarrow> string \<Rightarrow> int \<Rightarrow> bool" where
  \<comment> \<open>The specification's words: the exact string stands among the first \<open>limit\<close> rows
      of the table, or its lowercased form does.\<close>
  "is_common table w limit =
     (w \<in> row_word ` set (take (nat limit) table) \<or>
      lower w \<in> row_word ` set (take (nat limit) table))"

subsection \<open>WiktionaryDefiner\<close>

record wikt_definition =
  def_text :: "string list"

record wikt_entry =
  definitions :: "wikt_definition list"

type_synonym 'w fetcher = "'w \<Rightarrow> string \<Rightarrow> wikt_entry list"

record 'w definer =
  language :: string
  entry :: "wikt_entry list option"
  fetched :: "'w list"

text \<open>
  An entry of the parser is a dictionary that always has the key \<^verbatim>\<open>definitions\<close>, and
  a definition group one that always has the key \<^verbatim>\<open>text\<close>; the other keys are not read.
  \<open>entry\<close> is \<^verbatim>\<open>self.entry\<close> (\<open>None\<close> until the first lookup). \<open>fetched\<close> is not a field
  of the source: it records the words passed to \<^verbatim>\<open>parser.fetch\<close>, in order, so that
  a theorem can say which lookups a call makes.

  The definer reads nothing of a word but its lowercased form. It is modelled for any type
  \<open>'w\<close> of words, with \<^verbatim>\<open>str.lower\<close> as the argument \<open>lower_of\<close>: the pipeline runs it
  on the strings of the model with \<open>lower\<close>, and a theorem can run it on words of Unicode
  code points, which the strings of the model do not hold.
\<close>

definition new_definer :: "string \<Rightarrow> 'w definer" where
  \<comment> \<open>\<^verbatim>\<open>WiktionaryDefiner(language)\<close>\<close>
  "new_definer lang = \<lparr>language = lang, entry = None, fetched = []\<rparr>"

definition lookup_word :: "'w fetcher \<Rightarrow> 'w \<Rightarrow> 'w definer \<Rightarrow> 'w definer" where
  "lookup_word fetch w d =
     d\<lparr>entry := Some (fetch w (language d)), fetched := fetched d @ [w]\<rparr>"

definition get_definition ::
  "'w fetcher \<Rightarrow> 'w \<Rightarrow> int \<Rightarrow> int \<Rightarrow> 'w definer \<Rightarrow> (error + string option) \<times> 'w definer" where
  \<comment> \<open>\<^verbatim>\<open>WiktionaryDefiner.get_definition(word, entry_n, definition_n)\<close>. Only
      \<^verbatim>\<open>definitions[definition_n]\<close> stands in a \<^verbatim>\<open>try\<close>; \<^verbatim>\<open>self.entry[entry_n]\<close> and
      \<^verbatim>\<open>text[1]\<close> raise IndexError to the caller.\<close>
  "get_definition fetch w entry_n definition_n d =
     (let d' = lookup_word fetch w d in
      (case entry d' of
         None \<Rightarrow> Inl TypeError
       | Some es \<Rightarrow>
           if es = [] then Inr None
           else (case py_index es entry_n of
                   None \<Rightarrow> Inl IndexError
                 | Some e \<Rightarrow>
                     (case py_index (definitions e) definition_n of
                        None \<Rightarrow> Inr None
                      | Some dfn \<Rightarrow>
                          (case py_index (def_text dfn) 1 of
                             None \<Rightarrow> Inl IndexError
                           | Some t \<Rightarrow> Inr (Some t)))),
       d'))"

definition definer_define ::
  "('w \<Rightarrow> 'w) \<Rightarrow> 'w fetcher \<Rightarrow> 'w \<Rightarrow> 'w definer \<Rightarrow> (error + string option) \<times> 'w definer" where
  \<comment> \<open>\<^verbatim>\<open>WiktionaryDefiner.define(word)\<close>; \<open>lower_of w\<close> is \<^verbatim>\<open>word.lower()\<close>.\<close>
  "definer_define lower_of fetch w d =
     (case get_definition fetch w 0 0 d of
        (Inl e, d1) \<Rightarrow> (Inl e, d1)
      | (Inr (Some r), d1) \<Rightarrow> (Inr (Some r), d1)
      | (Inr None, d1) \<Rightarrow>
          if lower_of w \<noteq> w then get_definition fetch (lower_of w) 0 0 d1 else (Inr None, d1))"

text \<open>
  The two functions of \<^verbatim>\<open>source.py\<close> that the class repeats, with the module's
  \<^verbatim>\<open>LANGUAGE = "english"\<close>; \<open>query_wiktionary_inner\<close> is \<^verbatim>\<open>_query_wiktionary\<close>.
\<close>

definition query_wiktionary_inner :: "'w fetcher \<Rightarrow> 'w \<Rightarrow> error + string option" where
  "query_wiktionary_inner fetch w =
     (let es = fetch w ''english'' in
      if es = [] then Inr None
      else (case py_index es 0 of
              None \<Rightarrow> Inl IndexError
            | Some first_entry \<Rightarrow>
                (case py_index (definitions first_entry) 0 of
                   None \<Rightarrow> Inr None
                 | Some first_major_def \<Rightarrow>
                     (case py_index (def_text first_major_def) 1 of
                        None \<Rightarrow> Inl IndexError
                      | Some first_minor_def \<Rightarrow> Inr (Some first_minor_def)))))"

definition query_wiktionary ::
  "('w \<Rightarrow> 'w) \<Rightarrow> 'w fetcher \<Rightarrow> 'w \<Rightarrow> error + string option" where
  "query_wiktionary lower_of fetch w =
     (case query_wiktionary_inner fetch w of
        Inl e \<Rightarrow> Inl e
      | Inr (Some r) \<Rightarrow> Inr (Some r)
      | Inr None \<Rightarrow>
          if lower_of w \<noteq> w then query_wiktionary_inner fetch (lower_of w) else Inr None)"

subsection \<open>Word, Flashcard and Deck\<close>

record word_obj =
  w_word :: string
  w_definition :: "string option"

definition new_Word :: "string \<Rightarrow> word_obj" where
  \<comment> \<open>\<^verbatim>\<open>Word(word)\<close>: the definition starts as \<^verbatim>\<open>None\<close>.\<close>
  "new_Word w = \<lparr>w_word = w, w_definition = None\<rparr>"

definition word_get_definition ::
  "string fetcher \<Rightarrow> word_obj \<Rightarrow> string definer \<Rightarrow> (error + word_obj) \<times> string definer" where
  \<comment> \<open>\<^verbatim>\<open>Word.get_definition(definer)\<close>\<close>
  "word_get_definition fetch w d =
     (case definer_define lower fetch (w_word w) d of
        (Inl e, d') \<Rightarrow> (Inl e, d')
      | (Inr r, d') \<Rightarrow> (Inr (w\<lparr>w_definition := r\<rparr>), d'))"

record flashcard =
  fc_word :: string
  fc_definition :: "string option"

definition from_word :: "word_obj \<Rightarrow> flashcard" where
  \<comment> \<open>\<^verbatim>\<open>Flashcard.from_word\<close>\<close>
  "from_word w = \<lparr>fc_word = w_word w, fc_definition = w_definition w\<rparr>"

definition format_definition :: "string option \<Rightarrow> string" where
  \<comment> \<open>What an f-string writes for \<^verbatim>\<open>{self.definition}\<close>\<close>
  "format_definition d = (case d of None \<Rightarrow> ''None'' | Some s \<Rightarrow> s)"

definition get_flashcard :: "flashcard \<Rightarrow> string" where
  \<comment> \<open>\<^verbatim>\<open>f'{self.word}; "{self.definition}"'\<close>\<close>
  "get_flashcard c = fc_word c @ ''; '' @ [dquote] @ format_definition (fc_definition c) @ [dquote]"

fun join :: "string \<Rightarrow> string list \<Rightarrow> string" where
  \<comment> \<open>\<^verbatim>\<open>sep.join(parts)\<close>\<close>
  "join sep [] = []"
| "join sep [p] = p"
| "join sep (p # q # ps) = p @ sep @ join sep (q # ps)"

definition surviving :: "flashcard list \<Rightarrow> flashcard list" where
  \<comment> \<open>The two list comprehensions of \<^verbatim>\<open>Deck.as_string\<close>: the cards with a definition,
      then those of them with a word that is not empty.\<close>
  "surviving deck =
     filter (\<lambda>card. fc_word card \<noteq> []) (filter (\<lambda>card. fc_definition card \<noteq> None) deck)"

definition as_string :: "flashcard list \<Rightarrow> string" where
  \<comment> \<open>\<^verbatim>\<open>Deck.as_string\<close>\<close>
  "as_string deck = join [newline] (map get_flashcard (surviving deck))"

definition line_count :: "string \<Rightarrow> nat" where
  \<comment> \<open>The number of lines of a text, as \<^verbatim>\<open>len(s.split("\n"))\<close> counts them for a text
      that is not empty; the empty text has none.\<close>
  "line_count s = (if s = [] then 0 else Suc (count_list s newline))"

subsection \<open>Wiki2Anki\<close>

record wiki2anki =
  top_n :: int
  wiki_text :: string
  definer :: "string definer"
  common :: "string list"

definition new_Wiki2Anki :: "string \<Rightarrow> freq_row list \<Rightarrow> int \<Rightarrow> wiki2anki" where
  \<comment> \<open>\<^verbatim>\<open>Wiki2Anki(url, top)\<close> and its \<^verbatim>\<open>__attrs_post_init__\<close>: \<open>body\<close> is the text of
      the page at \<^verbatim>\<open>url\<close>, \<open>table\<close> the rows of the frequency file.\<close>
  "new_Wiki2Anki body table n =
     \<lparr>top_n = n, wiki_text = body, definer = new_definer ''english'',
      common = common_words table n\<rparr>"

definition select_words :: "int \<Rightarrow> string list \<Rightarrow> string list \<Rightarrow> string list" where
  \<comment> \<open>Lines 165 to 171 of \<^verbatim>\<open>Wiki2Anki.get_words\<close>, the column \<^verbatim>\<open>df[~mask]["word"]\<close>, for
      the words of the page and the column of the common words; \<open>n\<close> is the argument of
      \<^verbatim>\<open>df.head\<close>, which the source writes as the literal 100.\<close>
  "select_words n common_col words =
     (let df = drop_duplicates words;
          df = head n df;
          msk = common_mask common_col df
      in boolean_index df (bitwise_not msk))"

definition uncommon_words :: "wiki2anki \<Rightarrow> string list" where
  \<comment> \<open>Lines 164 to 171 of \<^verbatim>\<open>Wiki2Anki.get_words\<close>: the words that the loop resolves.\<close>
  "uncommon_words app = select_words 100 (common app) (clean (wiki_text app))"

fun get_definitions ::
  "string fetcher \<Rightarrow> word_obj list \<Rightarrow> string definer \<Rightarrow> (error + word_obj list) \<times> string definer" where
  \<comment> \<open>\<^verbatim>\<open>for word in words: word.get_definition(definer=self.definer)\<close>; the result is the
      list \<^verbatim>\<open>words\<close> after the loop.\<close>
  "get_definitions fetch [] d = (Inr [], d)"
| "get_definitions fetch (w # ws) d =
     (case word_get_definition fetch w d of
        (Inl e, d') \<Rightarrow> (Inl e, d')
      | (Inr w', d') \<Rightarrow>
          (case get_definitions fetch ws d' of
             (Inl e, d'') \<Rightarrow> (Inl e, d'')
           | (Inr ws', d'') \<Rightarrow> (Inr (w' # ws'), d'')))"

definition get_words :: "string fetcher \<Rightarrow> wiki2anki \<Rightarrow> (error + word_obj list option) \<times> wiki2anki" where
  \<comment> \<open>\<^verbatim>\<open>Wiki2Anki.get_words\<close>. The function has no \<^verbatim>\<open>return\<close>: when the loop ends it
      returns \<^verbatim>\<open>None\<close>, and the list \<^verbatim>\<open>words\<close> is lost.\<close>
  "get_words fetch app =
     (case get_definitions fetch (map new_Word (uncommon_words app)) (definer app) of
        (Inl e, d) \<Rightarrow> (Inl e, app\<lparr>definer := d\<rparr>)
      | (Inr words, d) \<Rightarrow> (Inr None, app\<lparr>definer := d\<rparr>))"

definition get_cards :: "string fetcher \<Rightarrow> wiki2anki \<Rightarrow> (error + flashcard list) \<times> wiki2anki" where
  \<comment> \<open>\<^verbatim>\<open>[Flashcard.from_word(word) for word in self.get_words()]\<close>: iterating over
      \<^verbatim>\<open>None\<close> raises TypeError.\<close>
  "get_cards fetch app =
     (case get_words fetch app of
        (Inl e, app') \<Rightarrow> (Inl e, app')
      | (Inr None, app') \<Rightarrow> (Inl TypeError, app')
      | (Inr (Some words), app') \<Rightarrow> (Inr (map from_word words), app'))"

definition get_deck :: "string fetcher \<Rightarrow> wiki2anki \<Rightarrow> (error + string) \<times> wiki2anki" where
  \<comment> \<open>\<^verbatim>\<open>Deck(self.get_cards()).as_string()\<close>\<close>
  "get_deck fetch app =
     (case get_cards fetch app of
        (Inl e, app') \<Rightarrow> (Inl e, app')
      | (Inr cards, app') \<Rightarrow> (Inr (as_string cards), app'))"

subsection \<open>Data of the scenarios\<close>

text \<open>
  The inputs at which the theorems below are evaluated: definition sources, frequency
  tables, decks and texts, and the case tables of Python for a few Unicode code points.
\<close>

definition fox_source :: "string fetcher" where
  \<comment> \<open>A source that knows \<^verbatim>\<open>fox\<close> only; the first text element is the headword line.\<close>
  "fox_source w lang =
     (if w = ''fox''
      then [\<lparr>definitions = [\<lparr>def_text = [''fox (plural foxes)'', ''a wild canine'']\<rparr>]\<rparr>]
      else [])"

definition headword_only_source :: "string fetcher" where
  \<comment> \<open>A source whose first definition group holds the headword line and nothing else.\<close>
  "headword_only_source w lang = [\<lparr>definitions = [\<lparr>def_text = [''fox (plural foxes)'']\<rparr>]\<rparr>]"

definition no_entry_source :: "'w fetcher" where
  \<comment> \<open>A source with no entry for any word.\<close>
  "no_entry_source w lang = []"

definition unicode_isupper :: "int \<Rightarrow> bool" where
  \<comment> \<open>\<^verbatim>\<open>str.isupper\<close> of one character given by its code point, on the code points that
      the theorems use: A to Z, U+01C4 and U+211D are uppercase; a to z, U+01C5 (a titlecase
      letter) and U+01C6 are not.\<close>
  "unicode_isupper cp = ((65 \<le> cp \<and> cp \<le> 90) \<or> cp = 0x1C4 \<or> cp = 0x211D)"

definition unicode_lower :: "int list \<Rightarrow> int list" where
  \<comment> \<open>\<^verbatim>\<open>str.lower\<close> of a word of those code points: A to Z go to a to z, U+01C4 and U+01C5
      go to U+01C6, and U+211D, which has no lowercase form, stays.\<close>
  "unicode_lower w =
     map (\<lambda>cp. if 65 \<le> cp \<and> cp \<le> 90 then cp + 32
               else if cp = 0x1C4 \<or> cp = 0x1C5 then 0x1C6 else cp) w"

definition light_table :: "freq_row list" where
  "light_table =
     [\<lparr>row_rank = 1, row_word = ''the'', row_count = 56271872\<rparr>,
      \<lparr>row_rank = 2, row_word = ''Light'', row_count = 1000\<rparr>]"

definition a0_table :: "freq_row list" where
  \<comment> \<open>A table whose one row is the first word of \<open>hundred_words\<close>.\<close>
  "a0_table = [\<lparr>row_rank = 1, row_word = ''a0'', row_count = 1\<rparr>]"

definition two_cards :: "flashcard list" where
  "two_cards = [\<lparr>fc_word = ''Fox'', fc_definition = Some ''a wild canine''\<rparr>,
                \<lparr>fc_word = ''kit'', fc_definition = Some ''a young fox''\<rparr>]"

definition dead_cards :: "flashcard list" where
  "dead_cards = [\<lparr>fc_word = ''jumps'', fc_definition = None\<rparr>,
                 \<lparr>fc_word = [], fc_definition = Some ''nothing''\<rparr>]"

definition two_line_card :: "flashcard list" where
  "two_line_card =
     [\<lparr>fc_word = ''set'', fc_definition = Some (''to put'' @ [newline] @ ''to place'')\<rparr>]"

definition fox_text :: string where
  \<comment> \<open>The text of the end-to-end scenario of the specification.\<close>
  "fox_text = ''The quick Fox jumps over the lazy dog. The Fox runs.''"

definition fox_table :: "freq_row list" where
  "fox_table =
     [\<lparr>row_rank = 1, row_word = ''the'', row_count = 56271872\<rparr>,
      \<lparr>row_rank = 2, row_word = ''quick'', row_count = 40000\<rparr>,
      \<lparr>row_rank = 3, row_word = ''over'', row_count = 30000\<rparr>,
      \<lparr>row_rank = 4, row_word = ''lazy'', row_count = 20000\<rparr>,
      \<lparr>row_rank = 5, row_word = ''dog'', row_count = 10000\<rparr>,
      \<lparr>row_rank = 6, row_word = ''runs'', row_count = 5000\<rparr>]"

definition hundred_words :: string where
  \<comment> \<open>A hundred different words, each followed by a space.\<close>
  "hundred_words =
     ''a0 a1 a2 a3 a4 a5 a6 a7 a8 a9 b0 b1 b2 b3 b4 b5 b6 b7 b8 b9 '' @
     ''c0 c1 c2 c3 c4 c5 c6 c7 c8 c9 d0 d1 d2 d3 d4 d5 d6 d7 d8 d9 '' @
     ''e0 e1 e2 e3 e4 e5 e6 e7 e8 e9 f0 f1 f2 f3 f4 f5 f6 f7 f8 f9 '' @
     ''g0 g1 g2 g3 g4 g5 g6 g7 g8 g9 h0 h1 h2 h3 h4 h5 h6 h7 h8 h9 '' @
     ''i0 i1 i2 i3 i4 i5 i6 i7 i8 i9 j0 j1 j2 j3 j4 j5 j6 j7 j8 j9 ''"

section \<open>Characters and lowercasing\<close>

lemma lower_char_neq_iff: "lower_char c \<noteq> c \<longleftrightarrow> is_upper c"
proof (cases "is_upper c")
  case False
  then show ?thesis by (simp add: lower_char_def)
next
  case True
  then have "0 \<le> (of_char c :: int) + 32 \<and> (of_char c :: int) + 32 < 256"
    by (auto simp: is_upper_def Let_def)
  then have "(of_char (char_of ((of_char c :: int) + 32)) :: int) = of_char c + 32"
    by simp
  then have "char_of ((of_char c :: int) + 32) \<noteq> c"
    by (metis add_cancel_right_right zero_neq_numeral)
  with True show ?thesis by (simp add: lower_char_def)
qed

text \<open>
  The source tests \<^verbatim>\<open>lower != word\<close>; on the characters of the model that is the same
  as the word having an uppercase character.
\<close>

lemma lower_neq_iff: "lower w \<noteq> w \<longleftrightarrow> has_uppercase w"
proof (induction w)
  case Nil
  show ?case by (simp add: lower_def has_uppercase_def)
next
  case (Cons c w)
  then show ?case
    using lower_char_neq_iff [of c] by (auto simp: lower_def has_uppercase_def)
qed

lemma lower_eq_Nil: "lower w = [] \<longleftrightarrow> w = []" "[] = lower w \<longleftrightarrow> w = []"
  by (simp_all add: lower_def)

lemma lower_Nil: "lower [] = []"
  by (simp add: lower_def)

lemma lower_examples:
  "lower ''light'' = ''light''" "lower ''The'' = ''the''" "lower ''Light'' = ''light''"
  "lower ''fox'' = ''fox''" "lower ''Fox'' = ''fox''" "lower ''jumps'' = ''jumps''"
  by code_simp+

section \<open>The cleaner\<close>

lemma split_by_whitespace_Nil:
  "dropWhile (\<lambda>c. \<not> is_space c) s = [] \<Longrightarrow> split_by_whitespace s = [s]"
  by (subst split_by_whitespace.simps) (simp only: list.case)

lemma split_by_whitespace_Cons:
  "dropWhile (\<lambda>c. \<not> is_space c) s = c # rest \<Longrightarrow>
   split_by_whitespace s =
     takeWhile (\<lambda>c. \<not> is_space c) s # split_by_whitespace (dropWhile is_space rest)"
  by (subst split_by_whitespace.simps) (simp only: list.case)

lemma split_by_whitespace_nonempty: "split_by_whitespace s \<noteq> []"
  by (cases "dropWhile (\<lambda>c. \<not> is_space c) s")
    (simp_all only: split_by_whitespace_Nil split_by_whitespace_Cons list.distinct not_False_eq_True)

lemma split_by_whitespace_no_space:
  "\<forall>c \<in> set s. \<not> is_space c \<Longrightarrow> split_by_whitespace s = [s]"
  by (rule split_by_whitespace_Nil) (simp add: dropWhile_eq_Nil_conv)

lemma split_by_whitespace_leading:
  "is_space c \<Longrightarrow> split_by_whitespace (c # s) = [] # split_by_whitespace (dropWhile is_space s)"
  using split_by_whitespace_Cons [of "c # s" c s] by simp

lemma last_dropWhile: "dropWhile P xs \<noteq> [] \<Longrightarrow> last (dropWhile P xs) = last xs"
  by (induction xs) (auto split: if_splits)

text \<open>A text that ends with whitespace has an empty last token.\<close>

lemma split_by_whitespace_trailing:
  "s \<noteq> [] \<Longrightarrow> is_space (last s) \<Longrightarrow> last (split_by_whitespace s) = []"
proof (induction s rule: split_by_whitespace.induct)
  case (1 s)
  from "1.prems" have "last s \<in> set s" by simp
  with "1.prems" have "dropWhile (\<lambda>c. \<not> is_space c) s \<noteq> []"
    by (auto simp: dropWhile_eq_Nil_conv)
  then obtain c rest where cr: "dropWhile (\<lambda>c. \<not> is_space c) s = c # rest"
    by (cases "dropWhile (\<lambda>c. \<not> is_space c) s") auto
  then have split: "split_by_whitespace s =
      takeWhile (\<lambda>c. \<not> is_space c) s # split_by_whitespace (dropWhile is_space rest)"
    by (rule split_by_whitespace_Cons)
  show ?case
  proof (cases "dropWhile is_space rest = []")
    case True
    have "split_by_whitespace [] = [[]]" by (rule split_by_whitespace_Nil) simp
    with True split have "split_by_whitespace s = [takeWhile (\<lambda>c. \<not> is_space c) s, []]"
      by (simp only:)
    then show ?thesis by simp
  next
    case False
    then have "rest \<noteq> []" by auto
    have "last (dropWhile is_space rest) = last rest" using False by (rule last_dropWhile)
    also have "\<dots> = last (c # rest)" using \<open>rest \<noteq> []\<close> by simp
    also have "\<dots> = last s" using cr last_dropWhile [of "\<lambda>c. \<not> is_space c" s] by simp
    finally have "is_space (last (dropWhile is_space rest))" using "1.prems" by simp
    with False cr have "last (split_by_whitespace (dropWhile is_space rest)) = []"
      by (intro "1.IH") auto
    with split show ?thesis by (simp add: split_by_whitespace_nonempty)
  qed
qed

lemma takeWhile_no_space: "c \<in> set (takeWhile (\<lambda>c. \<not> is_space c) s) \<Longrightarrow> \<not> is_space c"
  by (rule set_takeWhileD [THEN conjunct2])

text \<open>No token holds a whitespace character.\<close>

lemma split_by_whitespace_tokens:
  "tok \<in> set (split_by_whitespace s) \<Longrightarrow> c \<in> set tok \<Longrightarrow> \<not> is_space c"
proof (induction s rule: split_by_whitespace.induct)
  case (1 s)
  show ?case
  proof (cases "dropWhile (\<lambda>c. \<not> is_space c) s")
    case Nil
    then have "split_by_whitespace s = [s]" by (rule split_by_whitespace_Nil)
    with "1.prems" have "c \<in> set s" by simp
    moreover from Nil have "\<forall>x \<in> set s. \<not> is_space x" by (simp add: dropWhile_eq_Nil_conv)
    ultimately show ?thesis by (rule bspec [rotated])
  next
    case (Cons c' rest)
    then have "split_by_whitespace s =
      takeWhile (\<lambda>c. \<not> is_space c) s # split_by_whitespace (dropWhile is_space rest)"
      by (rule split_by_whitespace_Cons)
    with "1.prems"(1) have "tok = takeWhile (\<lambda>c. \<not> is_space c) s \<or>
        tok \<in> set (split_by_whitespace (dropWhile is_space rest))"
      by (simp only: set_ConsD list.set insert_iff)
    then show ?thesis
    proof
      assume "tok = takeWhile (\<lambda>c. \<not> is_space c) s"
      with "1.prems"(2) show ?thesis by (simp only: takeWhile_no_space not_False_eq_True)
    next
      assume "tok \<in> set (split_by_whitespace (dropWhile is_space rest))"
      then show ?thesis using "1.prems"(2) by (rule "1.IH" [OF Cons])
    qed
  qed
qed

text \<open>The tokens, one after the other, are the text without its whitespace.\<close>

lemma concat_split_by_whitespace:
  "concat (split_by_whitespace s) = filter (\<lambda>c. \<not> is_space c) s"
proof (induction s rule: split_by_whitespace.induct)
  case (1 s)
  show ?case
  proof (cases "dropWhile (\<lambda>c. \<not> is_space c) s")
    case Nil
    then have "split_by_whitespace s = [s]" by (rule split_by_whitespace_Nil)
    with Nil show ?thesis by (simp add: dropWhile_eq_Nil_conv filter_id_conv)
  next
    case (Cons c rest)
    then have split: "split_by_whitespace s =
      takeWhile (\<lambda>c. \<not> is_space c) s # split_by_whitespace (dropWhile is_space rest)"
      by (rule split_by_whitespace_Cons)
    have c: "is_space c" using Cons hd_dropWhile [of "\<lambda>c. \<not> is_space c" s] by auto
    have r: "filter (\<lambda>c. \<not> is_space c) rest = filter (\<lambda>c. \<not> is_space c) (dropWhile is_space rest)"
      by (induction rest) auto
    have t: "filter (\<lambda>c. \<not> is_space c) (takeWhile (\<lambda>c. \<not> is_space c) s) = takeWhile (\<lambda>c. \<not> is_space c) s"
      by (simp add: filter_id_conv) (auto dest: set_takeWhileD)
    have "filter (\<lambda>c. \<not> is_space c) s =
          filter (\<lambda>c. \<not> is_space c) (takeWhile (\<lambda>c. \<not> is_space c) s) @
          filter (\<lambda>c. \<not> is_space c) (dropWhile (\<lambda>c. \<not> is_space c) s)"
      by (metis filter_append takeWhile_dropWhile_id)
    also have "\<dots> = takeWhile (\<lambda>c. \<not> is_space c) s @ filter (\<lambda>c. \<not> is_space c) (c # rest)"
      by (simp only: t Cons)
    also have "\<dots> = takeWhile (\<lambda>c. \<not> is_space c) s @ filter (\<lambda>c. \<not> is_space c) (dropWhile is_space rest)"
      using c r by simp
    finally show ?thesis using split "1.IH" [OF Cons] by simp
  qed
qed

lemma remove_punctuation_eq:
  "remove_punctuation s = filter (\<lambda>c. is_alnum c \<or> c = CHR ''_'' \<or> is_space c) s"
  by (simp add: remove_punctuation_def is_word_def disj_assoc)

lemma clean_leading:
  "is_space c \<Longrightarrow> clean (c # s) = [] # split_by_whitespace (dropWhile is_space (remove_punctuation s))"
  by (simp add: clean_def remove_punctuation_def split_by_whitespace_leading)

lemma spaced_text:
  "split_by_whitespace '' The  Fox '' = [[], ''The'', ''Fox'', []]"
  "list_all (\<lambda>c. is_alnum c \<or> c = CHR ''_'' \<or> is_space c) '' The  Fox ''"
  "is_space CHR '' ''"
  by code_simp+

lemma snake_case:
  "clean ''snake_case'' = [''snake_case'']" "tokenize_spec ''snake_case'' = [''snakecase'']"
  "remove_punctuation ''snake_case'' = ''snake_case''"
  by code_simp+

text \<open>
  What \<^verbatim>\<open>clean\<close> does: it removes every character that is not alphanumeric, the
  underscore or whitespace, and splits the result at its runs of whitespace; on a text
  with no underscore that is the tokenizer of the specification. On a text whose
  characters are all of those kinds, \<^verbatim>\<open>clean\<close> is the whitespace split of the text
  itself. The split keeps the empty token before leading whitespace and the one after
  trailing whitespace; no token holds whitespace, and the tokens together are the text
  without its whitespace.
\<close>

lemma clean_policy:
  "clean s = split_by_whitespace (filter (\<lambda>c. is_alnum c \<or> c = CHR ''_'' \<or> is_space c) s)
   \<and> (CHR ''_'' \<notin> set s \<longrightarrow> clean s = tokenize_spec s)
   \<and> ((\<forall>c \<in> set s. is_alnum c \<or> c = CHR ''_'' \<or> is_space c) \<longrightarrow> clean s = split_by_whitespace s)
   \<and> (is_space c \<longrightarrow> hd (split_by_whitespace (c # t)) = [])
   \<and> (t \<noteq> [] \<and> is_space (last t) \<longrightarrow> last (split_by_whitespace t) = [])
   \<and> concat (split_by_whitespace t) = filter (\<lambda>c. \<not> is_space c) t
   \<and> (\<forall>tok \<in> set (split_by_whitespace t). \<forall>c \<in> set tok. \<not> is_space c)"
proof (intro conjI impI ballI)
  show "clean s = split_by_whitespace (filter (\<lambda>c. is_alnum c \<or> c = CHR ''_'' \<or> is_space c) s)"
    by (simp only: clean_def remove_punctuation_eq)
next
  assume "CHR ''_'' \<notin> set s"
  then have "filter (\<lambda>c. is_alnum c \<or> c = CHR ''_'' \<or> is_space c) s =
             filter (\<lambda>c. is_alnum c \<or> is_space c) s"
    by (intro filter_cong) auto
  then show "clean s = tokenize_spec s"
    by (simp only: clean_def remove_punctuation_eq tokenize_spec_def)
next
  assume "\<forall>c \<in> set s. is_alnum c \<or> c = CHR ''_'' \<or> is_space c"
  then have "filter (\<lambda>c. is_alnum c \<or> c = CHR ''_'' \<or> is_space c) s = s"
    by (simp add: filter_id_conv)
  then show "clean s = split_by_whitespace s"
    by (simp only: clean_def remove_punctuation_eq)
next
  assume "is_space c"
  then show "hd (split_by_whitespace (c # t)) = []"
    by (simp add: split_by_whitespace_leading)
next
  assume "t \<noteq> [] \<and> is_space (last t)"
  then show "last (split_by_whitespace t) = []"
    by (simp add: split_by_whitespace_trailing)
next
  show "concat (split_by_whitespace t) = filter (\<lambda>c. \<not> is_space c) t"
    by (rule concat_split_by_whitespace)
next
  fix tok c
  assume "tok \<in> set (split_by_whitespace t)" "c \<in> set tok"
  then show "\<not> is_space c" by (rule split_by_whitespace_tokens)
qed

lemma clean_policy_example:
  "clean '' The  Fox '' = [[], ''The'', ''Fox'', []]
   \<and> tokenize_spec '' The  Fox '' = [[], ''The'', ''Fox'', []]
   \<and> hd (split_by_whitespace '' The  Fox '') = []
   \<and> last (split_by_whitespace ''The  Fox '') = []"
proof -
  note policy = clean_policy [of "'' The  Fox ''" "CHR '' ''" "''The  Fox ''"]
  have all: "\<forall>c \<in> set '' The  Fox ''. is_alnum c \<or> c = CHR ''_'' \<or> is_space c"
    using spaced_text(2) by (simp only: list_all_iff)
  have none: "CHR ''_'' \<notin> set '' The  Fox ''" by simp
  have sp: "is_space CHR '' ''" by (rule spaced_text(3))
  have "clean '' The  Fox '' = split_by_whitespace '' The  Fox ''"
    using policy [THEN conjunct2, THEN conjunct2, THEN conjunct1] all by (rule mp)
  then have c: "clean '' The  Fox '' = [[], ''The'', ''Fox'', []]"
    by (simp only: spaced_text(1))
  have t: "clean '' The  Fox '' = tokenize_spec '' The  Fox ''"
    using policy [THEN conjunct2, THEN conjunct1] none by (rule mp)
  have h: "hd (split_by_whitespace '' The  Fox '') = []"
    using policy [THEN conjunct2, THEN conjunct2, THEN conjunct2, THEN conjunct1] sp by (rule mp)
  have "''The  Fox '' \<noteq> [] \<and> is_space (last ''The  Fox '')" using sp by simp
  with policy [THEN conjunct2, THEN conjunct2, THEN conjunct2, THEN conjunct2, THEN conjunct1]
  have l: "last (split_by_whitespace ''The  Fox '') = []" by (rule mp)
  from c t h l show ?thesis by simp
qed

text \<open>
  C7. The claim: \<^verbatim>\<open>clean\<close> removes every character that is not alphanumeric or
  whitespace, then splits at the runs of whitespace. The docstring of
  \<^verbatim>\<open>remove_punctuation\<close> says the same (remove all punctuation) and the pattern is
  named \<^verbatim>\<open>NON_ALNUM\<close>, but the pattern is \<^verbatim>\<open>[^\w\s]\<close> and \<^verbatim>\<open>\w\<close> matches the
  underscore: the source keeps \<^verbatim>\<open>snake_case\<close> as it is, where the claim gives
  \<^verbatim>\<open>snakecase\<close>.
\<close>

theorem clean_keeps_underscore:
  "remove_punctuation ''snake_case'' = ''snake_case''
   \<and> clean ''snake_case'' = [''snake_case'']
   \<and> tokenize_spec ''snake_case'' = [''snakecase'']"
  using snake_case by simp

section \<open>Masks and selections\<close>

lemma boolean_index_map: "boolean_index xs (map P xs) = filter P xs"
  by (induction xs) (simp_all add: boolean_index_def)

lemma bitwise_not_map: "bitwise_not (map P xs) = map (\<lambda>x. \<not> P x) xs"
  by (simp add: bitwise_not_def)

lemma boolean_index_not_Cons:
  "boolean_index (x # xs) (bitwise_not (b # bs)) =
   (if b then [] else [x]) @ boolean_index xs (bitwise_not bs)"
  by (simp add: boolean_index_def bitwise_not_def)

lemma boolean_index_Nil: "boolean_index [] msk = []"
  by (simp add: boolean_index_def)

lemma common_mask_map:
  "common_mask cm col = map (\<lambda>w. w \<in> set cm \<or> lower w \<in> set cm) col"
  by (induction col) (simp_all add: common_mask_def mask_or_def isin_def)

lemma boolean_index_common_mask:
  "boolean_index col (bitwise_not (common_mask cm col)) =
   filter (\<lambda>w. \<not> (w \<in> set cm \<or> lower w \<in> set cm)) col"
  by (simp only: common_mask_map bitwise_not_map boolean_index_map)

lemma head_100: "head 100 xs = take 100 xs"
  by (simp add: head_def)

lemma prefix_head: "prefix (head n xs) xs"
  by (simp add: head_def take_is_prefix)

lemma common_words_nonneg:
  "0 \<le> limit \<Longrightarrow> set (common_words table limit) = row_word ` set (take (nat limit) table)"
  by (simp add: common_words_def head_def)

subsection \<open>Dropping duplicates\<close>

lemma set_not_duplicated:
  "set (boolean_index xs (bitwise_not (duplicated seen xs))) = set xs - set seen"
proof (induction xs arbitrary: seen)
  case Nil
  show ?case by (simp add: boolean_index_Nil)
next
  case (Cons x xs)
  show ?case by (auto simp: boolean_index_not_Cons Cons.IH)
qed

lemma distinct_not_duplicated:
  "distinct (boolean_index xs (bitwise_not (duplicated seen xs)))"
proof (induction xs arbitrary: seen)
  case Nil
  show ?case by (simp add: boolean_index_Nil)
next
  case (Cons x xs)
  show ?case by (simp add: boolean_index_not_Cons Cons.IH set_not_duplicated)
qed

lemma subseq_not_duplicated:
  "subseq (boolean_index xs (bitwise_not (duplicated seen xs))) xs"
proof (induction xs arbitrary: seen)
  case Nil
  show ?case by (simp add: boolean_index_Nil)
next
  case (Cons x xs)
  have "subseq (boolean_index xs (bitwise_not (duplicated (seen @ [x]) xs))) (x # xs)"
    using Cons.IH [of "seen @ [x]"] by (rule list_emb_Cons)
  then show ?case by (simp add: boolean_index_not_Cons Cons.IH)
qed

lemma not_duplicated_snoc:
  "boolean_index (xs @ [x]) (bitwise_not (duplicated seen (xs @ [x]))) =
   boolean_index xs (bitwise_not (duplicated seen xs)) @
   (if x \<in> set seen \<union> set xs then [] else [x])"
proof (induction xs arbitrary: seen)
  case Nil
  show ?case by (simp add: boolean_index_not_Cons boolean_index_Nil)
next
  case (Cons y xs)
  have "boolean_index ((y # xs) @ [x]) (bitwise_not (duplicated seen ((y # xs) @ [x]))) =
        (if y \<in> set seen then [] else [y]) @
        boolean_index (xs @ [x]) (bitwise_not (duplicated (seen @ [y]) (xs @ [x])))"
    by (simp add: boolean_index_not_Cons)
  also have "\<dots> = (if y \<in> set seen then [] else [y]) @
        boolean_index xs (bitwise_not (duplicated (seen @ [y]) xs)) @
        (if x \<in> set (seen @ [y]) \<union> set xs then [] else [x])"
    by (simp only: Cons.IH)
  also have "\<dots> = boolean_index (y # xs) (bitwise_not (duplicated seen (y # xs))) @
        (if x \<in> set seen \<union> set (y # xs) then [] else [x])"
    by (simp add: boolean_index_not_Cons)
  finally show ?case .
qed

lemma set_drop_duplicates: "set (drop_duplicates xs) = set xs"
  by (simp add: drop_duplicates_def set_not_duplicated)

lemma distinct_drop_duplicates: "distinct (drop_duplicates xs)"
  by (simp add: drop_duplicates_def distinct_not_duplicated)

lemma subseq_drop_duplicates: "subseq (drop_duplicates xs) xs"
  by (simp add: drop_duplicates_def subseq_not_duplicated)

text \<open>
  The first occurrence is the one kept: a row at the end of the frame is kept exactly when
  its value stands in no earlier row.
\<close>

lemma drop_duplicates_snoc:
  "drop_duplicates (xs @ [x]) = drop_duplicates xs @ (if x \<in> set xs then [] else [x])"
  using not_duplicated_snoc [of xs x "[]"] by (simp add: drop_duplicates_def)

lemma drop_duplicates_Cons:
  "drop_duplicates (x # xs) = x # boolean_index xs (bitwise_not (duplicated [x] xs))"
  by (simp add: drop_duplicates_def boolean_index_not_Cons)

lemma drop_duplicates_example:
  "drop_duplicates [''a'', ''b'', ''a'', ''c'', ''b''] = [''a'', ''b'', ''c'']"
  by (simp add: drop_duplicates_def boolean_index_def bitwise_not_def)

section \<open>The frequency filter\<close>

lemma common_words_set: "set (common_words table limit) = row_word ` set (head limit table)"
  by (simp add: common_words_def)

text \<open>
  C4, as amended. For every frequency table, limit and column of words, the mask that the
  source computes marks a word as common if and only if its exact string stands among the
  rows that \<^verbatim>\<open>head(limit)\<close> keeps or its lowercased form does, and the rows kept of the
  column are the words that are not common. For a limit that is not negative those rows
  are the first \<open>limit\<close> rows of the table, and the mask is the classification of the
  specification; for a negative limit they are all rows but the last \<open>-limit\<close>. In
  particular, for a limit that is not negative, \<^verbatim>\<open>The\<close> is common when \<^verbatim>\<open>the\<close> is among
  the first \<open>limit\<close> rows, and \<^verbatim>\<open>light\<close> is not common when it is not among them itself,
  whether or not \<^verbatim>\<open>Light\<close> is. \<^verbatim>\<open>get_words\<close> applies this mask, with the rows that
  \<^verbatim>\<open>head(top)\<close> keeps, to the first 100 deduplicated tokens of the page.
\<close>

theorem common_mask_is_common:
  "common_mask (common_words table limit) column =
     map (\<lambda>w. w \<in> row_word ` set (head limit table) \<or> lower w \<in> row_word ` set (head limit table))
       column
   \<and> remove_common table limit column =
     filter (\<lambda>w. \<not> (w \<in> row_word ` set (head limit table) \<or>
                     lower w \<in> row_word ` set (head limit table))) column
   \<and> (0 \<le> limit \<longrightarrow>
      head limit table = take (nat limit) table
      \<and> common_mask (common_words table limit) column = map (\<lambda>w. is_common table w limit) column
      \<and> remove_common table limit column = filter (\<lambda>w. \<not> is_common table w limit) column)
   \<and> (limit < 0 \<longrightarrow> head limit table = take (length table - nat (- limit)) table)
   \<and> (0 \<le> limit \<and> ''the'' \<in> row_word ` set (take (nat limit) table) \<longrightarrow>
        common_mask (common_words table limit) [''The''] = [True])
   \<and> (0 \<le> limit \<and> ''light'' \<notin> row_word ` set (take (nat limit) table) \<longrightarrow>
        common_mask (common_words table limit) [''light''] = [False])
   \<and> common (new_Wiki2Anki body table limit) = common_words table limit
   \<and> select_words n (common_words table limit) column =
       boolean_index (head n (drop_duplicates column))
         (bitwise_not (common_mask (common_words table limit) (head n (drop_duplicates column))))
   \<and> (0 \<le> limit \<longrightarrow>
        uncommon_words (new_Wiki2Anki body table limit) =
          filter (\<lambda>w. \<not> is_common table w limit) (take 100 (drop_duplicates (clean body))))"
proof (intro conjI impI)
  show "common (new_Wiki2Anki body table limit) = common_words table limit"
    by (simp add: new_Wiki2Anki_def)
  show "select_words n (common_words table limit) column =
       boolean_index (head n (drop_duplicates column))
         (bitwise_not (common_mask (common_words table limit) (head n (drop_duplicates column))))"
    by (simp add: select_words_def Let_def)
  show "common_mask (common_words table limit) column =
     map (\<lambda>w. w \<in> row_word ` set (head limit table) \<or> lower w \<in> row_word ` set (head limit table))
       column"
    by (simp only: common_mask_map common_words_set)
  show "remove_common table limit column =
     filter (\<lambda>w. \<not> (w \<in> row_word ` set (head limit table) \<or>
                     lower w \<in> row_word ` set (head limit table))) column"
    by (simp only: remove_common_def boolean_index_common_mask common_words_set)
next
  assume "0 \<le> limit"
  then show "uncommon_words (new_Wiki2Anki body table limit) =
          filter (\<lambda>w. \<not> is_common table w limit) (take 100 (drop_duplicates (clean body)))"
    by (simp add: uncommon_words_def select_words_def Let_def head_100 boolean_index_common_mask
        new_Wiki2Anki_def common_words_nonneg is_common_def)
next
  assume "0 \<le> limit"
  then show "head limit table = take (nat limit) table" by (simp add: head_def)
  from \<open>0 \<le> limit\<close>
  show "common_mask (common_words table limit) column = map (\<lambda>w. is_common table w limit) column"
    by (simp add: common_mask_map common_words_nonneg is_common_def)
  from \<open>0 \<le> limit\<close>
  show "remove_common table limit column = filter (\<lambda>w. \<not> is_common table w limit) column"
    by (simp add: remove_common_def boolean_index_common_mask common_words_nonneg is_common_def)
next
  assume "limit < 0"
  then have "nat (int (length table) + limit) = length table - nat (- limit)" by linarith
  with \<open>limit < 0\<close> show "head limit table = take (length table - nat (- limit)) table"
    by (simp add: head_def)
next
  assume "0 \<le> limit \<and> ''the'' \<in> row_word ` set (take (nat limit) table)"
  then show "common_mask (common_words table limit) [''The''] = [True]"
    by (simp add: common_mask_map common_words_nonneg lower_examples)
next
  assume "0 \<le> limit \<and> ''light'' \<notin> row_word ` set (take (nat limit) table)"
  then show "common_mask (common_words table limit) [''light''] = [False]"
    by (simp add: common_mask_map common_words_nonneg lower_examples)
qed

text \<open>
  With \<^verbatim>\<open>the\<close> and \<^verbatim>\<open>Light\<close> in the table: \<^verbatim>\<open>The\<close> and \<^verbatim>\<open>Light\<close> are common,
  \<^verbatim>\<open>light\<close> and \<^verbatim>\<open>fox\<close> are not; with a limit of one row, \<^verbatim>\<open>Light\<close> is not either;
  with a limit of -1, the first of the two rows is kept.
\<close>

theorem common_mask_is_common_witness:
  "common_mask (common_words light_table 5000) [''The'', ''light'', ''Light'', ''fox''] =
     [True, False, True, False]
   \<and> remove_common light_table 5000 [''The'', ''light'', ''Light'', ''fox''] = [''light'', ''fox'']
   \<and> common_mask (common_words light_table 1) [''Light''] = [False]
   \<and> head (- 1) light_table = take 1 light_table"
  using common_mask_is_common [of light_table 5000 "[''The'', ''light'', ''Light'', ''fox'']"]
    common_mask_is_common [of light_table 1 "[''Light'']"]
    common_mask_is_common [of light_table "- 1" "[]"]
  by (simp add: is_common_def light_table_def lower_examples)

text \<open>
  The claim as stated, for every limit, fails at a negative one: with a limit of -1 and
  the rows \<^verbatim>\<open>the\<close> and \<^verbatim>\<open>Light\<close>, \<^verbatim>\<open>head\<close> keeps the row \<^verbatim>\<open>the\<close> and the source marks
  \<^verbatim>\<open>the\<close> as common, while no row is among the first -1 rows of the table.
\<close>

theorem common_mask_is_common_counterexample:
  "common_mask (common_words light_table (- 1)) [''the''] = [True]
   \<and> \<not> is_common light_table ''the'' (- 1)"
  by (simp add: common_mask_map common_words_def head_def is_common_def light_table_def
      lower_examples)

section \<open>The definer\<close>

lemma snd_get_definition: "snd (get_definition fetch w i j d) = lookup_word fetch w d"
  by (simp add: get_definition_def Let_def)

lemma fetched_get_definition:
  "fetched (snd (get_definition fetch w i j d)) = fetched d @ [w]"
  by (simp add: snd_get_definition lookup_word_def)

text \<open>
  What \<^verbatim>\<open>get_definition\<close> returns at its default indices, by the shape of the entries:
  no entry and no definition group give \<^verbatim>\<open>None\<close>, a text list of two elements or more
  gives its second element, and a shorter one raises IndexError.
\<close>

lemma get_definition_cases:
  "fst (get_definition fetch w 0 0 d) =
     (case fetch w (language d) of
        [] \<Rightarrow> Inr None
      | e # es \<Rightarrow>
          (case definitions e of
             [] \<Rightarrow> Inr None
           | g # gs \<Rightarrow>
               (case def_text g of
                  t0 # t1 # ts \<Rightarrow> Inr (Some t1)
                | _ \<Rightarrow> Inl IndexError)))"
  by (simp add: get_definition_def lookup_word_def py_index_def Let_def split: list.splits)

text \<open>The functions of \<^verbatim>\<open>source.py\<close> return what the methods of the class return.\<close>

lemma query_wiktionary_inner_eq:
  "language d = ''english'' \<Longrightarrow>
   query_wiktionary_inner fetch w = fst (get_definition fetch w 0 0 d)"
  by (simp add: query_wiktionary_inner_def get_definition_def lookup_word_def Let_def)

lemma language_get_definition: "language (snd (get_definition fetch w i j d)) = language d"
  by (simp add: snd_get_definition lookup_word_def)

lemma query_wiktionary_eq:
  assumes "language d = ''english''"
  shows "query_wiktionary lower_of fetch w = fst (definer_define lower_of fetch w d)"
proof (cases "get_definition fetch w 0 0 d")
  case (Pair r d1)
  then have "language d1 = ''english''"
    using language_get_definition [of fetch w 0 0 d] assms by simp
  then have "query_wiktionary_inner fetch (lower_of w) = fst (get_definition fetch (lower_of w) 0 0 d1)"
    by (rule query_wiktionary_inner_eq)
  moreover have "query_wiktionary_inner fetch w = r"
    using query_wiktionary_inner_eq [OF assms, of fetch w] Pair by simp
  ultimately show ?thesis
    using Pair by (simp add: query_wiktionary_def definer_define_def split: sum.splits option.splits)
qed

text \<open>
  C1. The claim: the resolver returns the second text element of the first definition
  group of the first entry, and returns nothing, raising no error, when there is no
  entry, no definition group, or a text list of fewer than two elements. The source
  guards \<^verbatim>\<open>definitions[definition_n]\<close> with \<^verbatim>\<open>try\<close>/\<^verbatim>\<open>except IndexError\<close> and leaves
  \<^verbatim>\<open>text[1]\<close> unguarded: for a source whose first definition group holds the headword
  line only, \<^verbatim>\<open>get_definition\<close> raises IndexError, and so do \<^verbatim>\<open>define\<close> and
  \<^verbatim>\<open>query_wiktionary\<close>.
\<close>

theorem get_definition_short_text_raises:
  "fst (get_definition headword_only_source ''fox'' 0 0 (new_definer ''english'')) = Inl IndexError
   \<and> fst (definer_define lower headword_only_source ''fox'' (new_definer ''english'')) = Inl IndexError
   \<and> query_wiktionary lower headword_only_source ''fox'' = Inl IndexError"
  by (simp add: definer_define_def get_definition_def lookup_word_def new_definer_def
      headword_only_source_def py_index_def query_wiktionary_def query_wiktionary_inner_def)

lemma fetched_definer_define:
  "fetched (snd (definer_define lower_of fetch w d)) = fetched d @ [w] \<or>
   fetched (snd (definer_define lower_of fetch w d)) = fetched d @ [w, lower_of w]"
proof (cases "get_definition fetch w 0 0 d")
  case (Pair r d1)
  then have "fetched d1 = fetched d @ [w]"
    using fetched_get_definition [of fetch w 0 0 d] by simp
  with Pair show ?thesis
    by (simp add: definer_define_def fetched_get_definition split: sum.splits option.splits)
qed

text \<open>
  C3, as amended. For every word: if the first attempt finds no definition and the word
  differs from its lowercased form, \<^verbatim>\<open>define\<close> makes exactly one more attempt, with the
  lowercased word, and returns its result; the lookups are the word and then its
  lowercased form. For a word equal to its lowercased form there is one lookup and no
  retry, and so there is when the first attempt finds a definition or raises. No call
  makes more than two lookups. \<^verbatim>\<open>query_wiktionary\<close> of \<^verbatim>\<open>source.py\<close> returns the same
  results. On the strings of the model, a word differs from its lowercased form exactly
  when it has an uppercase character.
\<close>

theorem definer_define_fallback:
  "(get_definition fetch w 0 0 d = (Inr None, d1) \<and> lower_of w \<noteq> w \<longrightarrow>
      definer_define lower_of fetch w d = get_definition fetch (lower_of w) 0 0 d1
      \<and> fetched (snd (definer_define lower_of fetch w d)) = fetched d @ [w, lower_of w])
   \<and> (lower_of w = w \<longrightarrow>
      definer_define lower_of fetch w d = get_definition fetch w 0 0 d
      \<and> fetched (snd (definer_define lower_of fetch w d)) = fetched d @ [w])
   \<and> (fst (get_definition fetch w 0 0 d) \<noteq> Inr None \<longrightarrow>
      definer_define lower_of fetch w d = get_definition fetch w 0 0 d
      \<and> fetched (snd (definer_define lower_of fetch w d)) = fetched d @ [w])
   \<and> length (fetched (snd (definer_define lower_of fetch w d))) \<le> length (fetched d) + 2
   \<and> (query_wiktionary_inner fetch w = Inr None \<and> lower_of w \<noteq> w \<longrightarrow>
      query_wiktionary lower_of fetch w = query_wiktionary_inner fetch (lower_of w))
   \<and> (lower_of w = w \<longrightarrow> query_wiktionary lower_of fetch w = query_wiktionary_inner fetch w)
   \<and> (query_wiktionary_inner fetch w \<noteq> Inr None \<longrightarrow>
      query_wiktionary lower_of fetch w = query_wiktionary_inner fetch w)
   \<and> (lower s \<noteq> s \<longleftrightarrow> has_uppercase s)"
proof (intro conjI impI)
  assume a: "get_definition fetch w 0 0 d = (Inr None, d1) \<and> lower_of w \<noteq> w"
  then have d1: "fetched d1 = fetched d @ [w]"
    using fetched_get_definition [of fetch w 0 0 d] by simp
  from a show eq: "definer_define lower_of fetch w d = get_definition fetch (lower_of w) 0 0 d1"
    by (simp add: definer_define_def)
  show "fetched (snd (definer_define lower_of fetch w d)) = fetched d @ [w, lower_of w]"
    by (simp add: eq fetched_get_definition d1)
next
  assume "lower_of w = w"
  then show eq: "definer_define lower_of fetch w d = get_definition fetch w 0 0 d"
    by (cases "get_definition fetch w 0 0 d")
      (simp add: definer_define_def split: sum.splits option.splits)
  show "fetched (snd (definer_define lower_of fetch w d)) = fetched d @ [w]"
    by (simp add: eq fetched_get_definition)
next
  assume "fst (get_definition fetch w 0 0 d) \<noteq> Inr None"
  then show eq: "definer_define lower_of fetch w d = get_definition fetch w 0 0 d"
    by (cases "get_definition fetch w 0 0 d")
      (simp add: definer_define_def split: sum.splits option.splits)
  show "fetched (snd (definer_define lower_of fetch w d)) = fetched d @ [w]"
    by (simp add: eq fetched_get_definition)
next
  show "length (fetched (snd (definer_define lower_of fetch w d))) \<le> length (fetched d) + 2"
    using fetched_definer_define [of lower_of fetch w d] by auto
next
  assume "query_wiktionary_inner fetch w = Inr None \<and> lower_of w \<noteq> w"
  then show "query_wiktionary lower_of fetch w = query_wiktionary_inner fetch (lower_of w)"
    by (simp add: query_wiktionary_def)
next
  assume "lower_of w = w"
  then show "query_wiktionary lower_of fetch w = query_wiktionary_inner fetch w"
    by (simp add: query_wiktionary_def split: sum.splits option.splits)
next
  assume "query_wiktionary_inner fetch w \<noteq> Inr None"
  then show "query_wiktionary lower_of fetch w = query_wiktionary_inner fetch w"
    by (simp add: query_wiktionary_def split: sum.splits option.splits)
next
  show "lower s \<noteq> s \<longleftrightarrow> has_uppercase s" by (rule lower_neq_iff)
qed

text \<open>
  \<^verbatim>\<open>Fox\<close> has no entry of its own and differs from \<^verbatim>\<open>fox\<close>: the second lookup gives the
  result. \<^verbatim>\<open>jumps\<close> is its own lowercased form and \<^verbatim>\<open>fox\<close> is found at once: one
  lookup each.
\<close>

theorem definer_define_fallback_witness:
  "definer_define lower fox_source ''Fox'' (new_definer ''english'') =
     (Inr (Some ''a wild canine''),
      \<lparr>language = ''english'',
       entry = Some [\<lparr>definitions = [\<lparr>def_text = [''fox (plural foxes)'', ''a wild canine'']\<rparr>]\<rparr>],
       fetched = [''Fox'', ''fox'']\<rparr>)
   \<and> definer_define lower fox_source ''jumps'' (new_definer ''english'') =
     (Inr None, \<lparr>language = ''english'', entry = Some [], fetched = [''jumps'']\<rparr>)
   \<and> definer_define lower fox_source ''fox'' (new_definer ''english'') =
     (Inr (Some ''a wild canine''),
      \<lparr>language = ''english'',
       entry = Some [\<lparr>definitions = [\<lparr>def_text = [''fox (plural foxes)'', ''a wild canine'']\<rparr>]\<rparr>],
       fetched = [''fox'']\<rparr>)
   \<and> query_wiktionary lower fox_source ''Fox'' = Inr (Some ''a wild canine'')
   \<and> query_wiktionary lower fox_source ''jumps'' = Inr None
   \<and> query_wiktionary lower fox_source ''fox'' = Inr (Some ''a wild canine'')
   \<and> has_uppercase ''Fox''"
  using definer_define_fallback [of fox_source "''Fox''" "new_definer ''english''"
      "\<lparr>language = ''english'', entry = Some [], fetched = [''Fox'']\<rparr>" lower "''Fox''"]
    definer_define_fallback [of fox_source "''jumps''" "new_definer ''english''" _ lower "''jumps''"]
    definer_define_fallback [of fox_source "''fox''" "new_definer ''english''" _ lower "''fox''"]
  by (simp add: get_definition_def lookup_word_def new_definer_def fox_source_def py_index_def
      query_wiktionary_inner_def lower_examples)

text \<open>
  The claim as stated, a retry exactly when the word has an uppercase character, fails on
  Unicode words, which the cleaner keeps (\<^verbatim>\<open>\w\<close> matches their letters). U+211D, the
  double-struck capital R, is uppercase and is its own lowercased form: its word has an
  uppercase character and no definition, and there is one lookup and no retry. U+01C5, a
  titlecase letter, is not uppercase and its lowercased form is U+01C6: its word has no
  uppercase character, and there is a second lookup.
\<close>

theorem definer_define_fallback_counterexample:
  "list_ex unicode_isupper [0x211D]
   \<and> fst (get_definition no_entry_source [0x211D :: int] 0 0 (new_definer ''english'')) = Inr None
   \<and> fetched (snd (definer_define unicode_lower no_entry_source [0x211D] (new_definer ''english'')))
       = [[0x211D]]
   \<and> \<not> list_ex unicode_isupper [0x1C5]
   \<and> fetched (snd (definer_define unicode_lower no_entry_source [0x1C5] (new_definer ''english'')))
       = [[0x1C5], [0x1C6]]"
  by (simp add: unicode_isupper_def unicode_lower_def definer_define_def get_definition_def
      lookup_word_def new_definer_def no_entry_source_def)

section \<open>The deck formatter\<close>

lemma surviving_idem: "surviving (surviving deck) = surviving deck"
  unfolding surviving_def by (induction deck) auto

lemma surviving_clean:
  "\<forall>c \<in> set deck. fc_definition c \<noteq> None \<and> fc_word c \<noteq> [] \<Longrightarrow> surviving deck = deck"
  by (simp add: surviving_def filter_id_conv)

lemma get_flashcard_surviving:
  "c \<in> set (surviving deck) \<Longrightarrow>
   get_flashcard c = fc_word c @ ''; '' @ [dquote] @ the (fc_definition c) @ [dquote]"
  by (auto simp: surviving_def get_flashcard_def format_definition_def)

lemma join_nonempty: "ps \<noteq> [] \<Longrightarrow> last ps \<noteq> [] \<Longrightarrow> join sep ps \<noteq> []"
  by (induction sep ps rule: join.induct) simp_all

lemma last_join:
  "ps \<noteq> [] \<Longrightarrow> last ps \<noteq> [] \<Longrightarrow> last (join sep ps) = last (last ps)"
  by (induction sep ps rule: join.induct) (simp_all add: join_nonempty)

lemma count_join_gen:
  "ps \<noteq> [] \<Longrightarrow>
   count_list (join sep ps) c =
   sum_list (map (\<lambda>p. count_list p c) ps) + (length ps - 1) * count_list sep c"
  by (induction sep ps rule: join.induct) simp_all

lemma sum_count_zero:
  "\<forall>p \<in> set ps. c \<notin> set p \<Longrightarrow> sum_list (map (\<lambda>p. count_list p c) ps) = 0"
  by (induction ps) (simp_all add: count_list_0_iff)

lemma count_join:
  "ps \<noteq> [] \<Longrightarrow> \<forall>p \<in> set ps. c \<notin> set p \<Longrightarrow> count_list (join [c] ps) c = length ps - 1"
  by (simp add: count_join_gen sum_count_zero)

lemma newline_in_flashcard:
  "c \<in> set (surviving deck) \<Longrightarrow>
   newline \<in> set (get_flashcard c) \<longleftrightarrow>
   newline \<in> set (fc_word c) \<or> newline \<in> set (the (fc_definition c))"
  by (auto simp: get_flashcard_surviving newline_def dquote_def)

lemma as_string_last: "as_string deck \<noteq> [] \<Longrightarrow> last (as_string deck) = dquote"
proof -
  assume ne: "as_string deck \<noteq> []"
  let ?ps = "map get_flashcard (surviving deck)"
  from ne have "?ps \<noteq> []" by (auto simp: as_string_def)
  moreover have "last ?ps \<noteq> [] \<and> last (last ?ps) = dquote"
    using \<open>?ps \<noteq> []\<close> by (simp add: last_map get_flashcard_def)
  ultimately show ?thesis by (simp add: as_string_def last_join)
qed

text \<open>
  C8. For every list of entries, \<^verbatim>\<open>as_string\<close> drops the entries with no definition,
  then the entries with an empty word, writes each entry left as the word, a semicolon
  and a space, and the definition between double quotes, and joins the lines with newline.
  On a list with no absent definition and no empty word the two filters remove nothing;
  filtering twice is filtering once, and formatting the filtered list gives the same text
  as formatting the list.
\<close>

theorem as_string_policy:
  "as_string deck =
     join [newline]
       (map (\<lambda>card. fc_word card @ ''; '' @ [dquote] @ the (fc_definition card) @ [dquote])
         (filter (\<lambda>card. fc_word card \<noteq> []) (filter (\<lambda>card. fc_definition card \<noteq> None) deck)))
   \<and> ((\<forall>card \<in> set deck. fc_definition card \<noteq> None \<and> fc_word card \<noteq> []) \<longrightarrow>
        surviving deck = deck)
   \<and> surviving (surviving deck) = surviving deck
   \<and> as_string (surviving deck) = as_string deck"
proof -
  have "map get_flashcard (surviving deck) =
        map (\<lambda>card. fc_word card @ ''; '' @ [dquote] @ the (fc_definition card) @ [dquote])
          (surviving deck)"
    by (rule map_cong) (simp_all add: get_flashcard_surviving)
  then have "as_string deck =
     join [newline]
       (map (\<lambda>card. fc_word card @ ''; '' @ [dquote] @ the (fc_definition card) @ [dquote])
         (filter (\<lambda>card. fc_word card \<noteq> []) (filter (\<lambda>card. fc_definition card \<noteq> None) deck)))"
    by (simp only: as_string_def surviving_def)
  moreover have "as_string (surviving deck) = as_string deck"
    by (simp only: as_string_def surviving_idem)
  ultimately show ?thesis
    using surviving_clean [of deck] surviving_idem [of deck] by blast
qed

theorem as_string_policy_witness:
  "surviving two_cards = two_cards \<and>
   as_string two_cards =
     ''Fox; '' @ [dquote] @ ''a wild canine'' @ [dquote] @ [newline] @
     ''kit; '' @ [dquote] @ ''a young fox'' @ [dquote] \<and>
   as_string (surviving two_cards) = as_string two_cards"
  using as_string_policy [of two_cards]
  by (simp add: two_cards_def)

text \<open>
  C10, as amended. Formatting the empty deck, or a deck in which every entry has no
  definition or an empty word, gives the empty text. When no word and no definition of
  an entry left holds a newline character, the text has exactly one line for each entry
  left. A text that is not empty ends with a double quote, so never with a newline.
\<close>

theorem as_string_lines:
  "as_string [] = []
   \<and> ((\<forall>card \<in> set deck. fc_definition card = None \<or> fc_word card = []) \<longrightarrow> as_string deck = [])
   \<and> ((\<forall>card \<in> set (surviving deck).
          newline \<notin> set (fc_word card) \<and> newline \<notin> set (the (fc_definition card))) \<longrightarrow>
        line_count (as_string deck) = length (surviving deck))
   \<and> (as_string deck \<noteq> [] \<longrightarrow> last (as_string deck) \<noteq> newline)"
proof (intro conjI impI)
  show "as_string [] = []" by (simp add: as_string_def surviving_def)
next
  assume "\<forall>card \<in> set deck. fc_definition card = None \<or> fc_word card = []"
  then have "surviving deck = []" by (auto simp: surviving_def filter_empty_conv)
  then show "as_string deck = []" by (simp add: as_string_def)
next
  assume no_newline: "\<forall>card \<in> set (surviving deck).
          newline \<notin> set (fc_word card) \<and> newline \<notin> set (the (fc_definition card))"
  let ?ps = "map get_flashcard (surviving deck)"
  show "line_count (as_string deck) = length (surviving deck)"
  proof (cases "surviving deck = []")
    case True
    then show ?thesis by (simp add: as_string_def line_count_def)
  next
    case False
    then have ne: "?ps \<noteq> []" by simp
    have "last ?ps \<noteq> []" using ne by (simp add: last_map get_flashcard_def)
    with ne have "join [newline] ?ps \<noteq> []" by (rule join_nonempty)
    moreover have "\<forall>p \<in> set ?ps. newline \<notin> set p"
      using no_newline by (auto simp: newline_in_flashcard)
    with ne have "count_list (join [newline] ?ps) newline = length ?ps - 1"
      by (rule count_join)
    ultimately show ?thesis using False by (simp add: as_string_def line_count_def)
  qed
next
  assume "as_string deck \<noteq> []"
  then have "last (as_string deck) = dquote" by (rule as_string_last)
  then show "last (as_string deck) \<noteq> newline" by (simp add: dquote_def newline_def)
qed

theorem as_string_lines_witness:
  "as_string dead_cards = [] \<and>
   line_count (as_string two_cards) = 2 \<and>
   last (as_string two_cards) \<noteq> newline"
  using as_string_lines [of dead_cards] as_string_lines [of two_cards]
  by (simp add: dead_cards_def two_cards_def surviving_def newline_def as_string_def
      get_flashcard_def format_definition_def)

text \<open>
  The claim as stated, one line for each entry left whatever the entries hold, fails for
  a definition of two lines: one entry is left and the text has two lines.
\<close>

theorem as_string_lines_counterexample:
  "length (surviving two_line_card) = 1 \<and> line_count (as_string two_line_card) = 2"
  by (simp add: two_line_card_def surviving_def as_string_def get_flashcard_def
      format_definition_def line_count_def newline_def dquote_def)

section \<open>The pipeline\<close>

lemma definer_new_Wiki2Anki: "definer (new_Wiki2Anki body table n) = new_definer ''english''"
  by (simp add: new_Wiki2Anki_def)

lemma common_new_Wiki2Anki: "common (new_Wiki2Anki body table n) = common_words table n"
  by (simp add: new_Wiki2Anki_def)

lemma wiki_text_new_Wiki2Anki: "wiki_text (new_Wiki2Anki body table n) = body"
  by (simp add: new_Wiki2Anki_def)

text \<open>
  The words that \<^verbatim>\<open>get_words\<close> resolves: the first hundred different tokens of the
  text, without the common ones.
\<close>

lemma uncommon_words_filter:
  "uncommon_words app =
   filter (\<lambda>w. \<not> (w \<in> set (common app) \<or> lower w \<in> set (common app)))
     (take 100 (drop_duplicates (clean (wiki_text app))))"
  by (simp add: uncommon_words_def select_words_def Let_def head_100 boolean_index_common_mask)

lemma prefix_filter_take: "prefix (filter P (take n xs)) (filter P xs)"
proof -
  have "filter P xs = filter P (take n xs) @ filter P (drop n xs)"
    by (metis append_take_drop_id filter_append)
  then show ?thesis by (rule prefixI)
qed

lemma uncommon_words_leading:
  assumes "wiki_text app = c # s" "is_space c" "[] \<notin> set (common app)"
  shows "\<exists>rest. uncommon_words app = [] # rest"
proof -
  obtain toks where "clean (wiki_text app) = [] # toks"
    using assms(1,2) clean_leading [of c s] by simp
  then obtain ys where "drop_duplicates (clean (wiki_text app)) = [] # ys"
    by (simp add: drop_duplicates_Cons)
  then have "take 100 (drop_duplicates (clean (wiki_text app))) = [] # take 99 ys"
    by (simp add: take_Cons')
  with assms(3) show ?thesis
    by (simp add: uncommon_words_filter lower_Nil)
qed

subsection \<open>The loop over the words\<close>

lemma snd_word_get_definition:
  "snd (word_get_definition fetch w d) = snd (definer_define lower fetch (w_word w) d)"
  by (simp add: word_get_definition_def split: prod.splits sum.splits)

lemma word_get_definition_word:
  "word_get_definition fetch w d = (Inr w', d') \<Longrightarrow> w_word w' = w_word w"
  by (auto simp: word_get_definition_def split: prod.splits sum.splits)

lemma fetched_word_get_definition:
  "\<exists>more. fetched (snd (word_get_definition fetch w d)) = fetched d @ w_word w # more \<and> length more \<le> 1"
  using fetched_definer_define [of lower fetch "w_word w" d]
  by (auto simp: snd_word_get_definition)

text \<open>The loop removes no word and keeps the order of the words.\<close>

lemma get_definitions_words:
  "get_definitions fetch ws d = (Inr ws', d') \<Longrightarrow> map w_word ws' = map w_word ws"
proof (induction ws arbitrary: d ws' d')
  case Nil
  then show ?case by simp
next
  case (Cons w ws)
  then show ?case
    by (auto split: prod.splits sum.splits dest: word_get_definition_word)
qed

lemma fetched_get_definitions:
  "\<exists>more. fetched (snd (get_definitions fetch ws d)) = fetched d @ more \<and> length more \<le> 2 * length ws"
proof (induction ws arbitrary: d)
  case Nil
  show ?case by simp
next
  case (Cons w ws)
  obtain r d1 where step: "word_get_definition fetch w d = (r, d1)" by (cases "word_get_definition fetch w d")
  obtain m1 where m1: "fetched d1 = fetched d @ w_word w # m1" "length m1 \<le> 1"
    using fetched_word_get_definition [of fetch w d] step by auto
  show ?case
  proof (cases r)
    case (Inl e)
    with step m1 show ?thesis by simp
  next
    case (Inr w')
    obtain m2 where m2: "fetched (snd (get_definitions fetch ws d1)) = fetched d1 @ m2" "length m2 \<le> 2 * length ws"
      using Cons.IH [of d1] by auto
    have "snd (get_definitions fetch (w # ws) d) = snd (get_definitions fetch ws d1)"
      using step Inr by (simp split: prod.splits sum.splits)
    with m1 m2 have "fetched (snd (get_definitions fetch (w # ws) d)) = fetched d @ (w_word w # m1 @ m2)
        \<and> length (w_word w # m1 @ m2) \<le> 2 * length (w # ws)"
      by simp
    then show ?thesis by blast
  qed
qed

lemma get_definitions_first_fetched:
  "prefix (fetched d @ [w_word w]) (fetched (snd (get_definitions fetch (w # ws) d)))"
proof -
  obtain r d1 where step: "word_get_definition fetch w d = (r, d1)" by (cases "word_get_definition fetch w d")
  obtain m1 where m1: "fetched d1 = fetched d @ w_word w # m1"
    using fetched_word_get_definition [of fetch w d] step by auto
  show ?thesis
  proof (cases r)
    case (Inl e)
    with step m1 show ?thesis by (simp add: prefix_def)
  next
    case (Inr w')
    obtain m2 where m2: "fetched (snd (get_definitions fetch ws d1)) = fetched d1 @ m2"
      using fetched_get_definitions [of fetch ws d1] by auto
    have "snd (get_definitions fetch (w # ws) d) = snd (get_definitions fetch ws d1)"
      using step Inr by (simp split: prod.splits sum.splits)
    with m1 m2 show ?thesis by (simp add: prefix_def)
  qed
qed

lemma get_definitions_all_fetched:
  "get_definitions fetch ws d = (Inr ws', d') \<Longrightarrow> set (map w_word ws) \<subseteq> set (fetched d')"
proof (induction ws arbitrary: d ws' d')
  case Nil
  then show ?case by simp
next
  case (Cons w ws)
  from Cons.prems obtain w' d1 ws1 where
    step: "word_get_definition fetch w d = (Inr w', d1)" and
    rest: "get_definitions fetch ws d1 = (Inr ws1, d')"
    by (auto split: prod.splits sum.splits)
  obtain m1 where m1: "fetched d1 = fetched d @ w_word w # m1"
    using fetched_word_get_definition [of fetch w d] step by auto
  obtain m2 where m2: "fetched d' = fetched d1 @ m2"
    using fetched_get_definitions [of fetch ws d1] rest by auto
  from m1 m2 have "w_word w \<in> set (fetched d')" by simp
  moreover have "set (map w_word ws) \<subseteq> set (fetched d')" using rest by (rule Cons.IH)
  ultimately show ?case by simp
qed

text \<open>When the loop returns, its lookups hold the words in their order.\<close>

lemma get_definitions_fetched_order:
  "get_definitions fetch ws d = (Inr ws', d') \<Longrightarrow>
   \<exists>more. fetched d' = fetched d @ more \<and> subseq (map w_word ws) more"
proof (induction ws arbitrary: d ws' d')
  case Nil
  then show ?case by simp
next
  case (Cons w ws)
  from Cons.prems obtain w' d1 ws1 where
    step: "word_get_definition fetch w d = (Inr w', d1)" and
    rest: "get_definitions fetch ws d1 = (Inr ws1, d')"
    by (auto split: prod.splits sum.splits)
  obtain m1 where m1: "fetched d1 = fetched d @ w_word w # m1"
    using fetched_word_get_definition [of fetch w d] step by auto
  obtain m2 where m2: "fetched d' = fetched d1 @ m2" "subseq (map w_word ws) m2"
    using Cons.IH [OF rest] by auto
  from m2(2) have "subseq (map w_word ws) (m1 @ m2)" by (rule list_emb_append2)
  then have "subseq (map w_word (w # ws)) (w_word w # m1 @ m2)" by simp
  moreover from m1 m2(1) have "fetched d' = fetched d @ (w_word w # m1 @ m2)" by simp
  ultimately show ?case by blast
qed

lemma fetched_subset:
  "set (fetched (snd (get_definitions fetch ws d))) \<subseteq>
   set (fetched d) \<union> set (map w_word ws) \<union> set (map (\<lambda>w. lower (w_word w)) ws)"
proof (induction ws arbitrary: d)
  case Nil
  show ?case by simp
next
  case (Cons w ws)
  obtain r d1 where step: "word_get_definition fetch w d = (r, d1)" by (cases "word_get_definition fetch w d")
  have d1: "set (fetched d1) \<subseteq> set (fetched d) \<union> {w_word w, lower (w_word w)}"
    using fetched_definer_define [of lower fetch "w_word w" d] step snd_word_get_definition [of fetch w d]
    by auto
  show ?case
  proof (cases r)
    case (Inl e)
    with step d1 show ?thesis by auto
  next
    case (Inr w')
    have "snd (get_definitions fetch (w # ws) d) = snd (get_definitions fetch ws d1)"
      using step Inr by (simp split: prod.splits sum.splits)
    with Cons.IH [of d1] d1 show ?thesis by auto
  qed
qed

lemma map_w_word_new_Word: "map w_word (map new_Word ws) = ws"
  by (induction ws) (simp_all add: new_Word_def)

lemma fetched_subset_words:
  "set (fetched (snd (get_definitions fetch (map new_Word ws) d))) \<subseteq>
   set (fetched d) \<union> set ws \<union> lower ` set ws"
proof -
  have "set (map w_word (map new_Word ws)) = set ws"
    by (simp only: map_w_word_new_Word)
  moreover have "set (map (\<lambda>w. lower (w_word w)) (map new_Word ws)) = lower ` set ws"
    by (simp add: new_Word_def image_image)
  ultimately show ?thesis
    using fetched_subset [of fetch "map new_Word ws" d] by (simp only:)
qed

subsection \<open>What the methods of Wiki2Anki return\<close>

lemma get_words_definer:
  "definer (snd (get_words fetch app)) =
   snd (get_definitions fetch (map new_Word (uncommon_words app)) (definer app))"
  by (simp add: get_words_def split: prod.splits sum.splits)

lemma get_words_result:
  "fst (get_words fetch app) =
   (case fst (get_definitions fetch (map new_Word (uncommon_words app)) (definer app)) of
      Inl e \<Rightarrow> Inl e | Inr words \<Rightarrow> Inr None)"
  by (simp add: get_words_def split: prod.splits sum.splits)

text \<open>
  \<^verbatim>\<open>get_words\<close> returns \<^verbatim>\<open>None\<close>, so \<^verbatim>\<open>get_cards\<close> fails on it: \<^verbatim>\<open>get_deck\<close>
  raises the error of a lookup, or TypeError when every lookup returned.
\<close>

lemma get_deck_result:
  "fst (get_deck fetch app) =
   (case fst (get_definitions fetch (map new_Word (uncommon_words app)) (definer app)) of
      Inl e \<Rightarrow> Inl e | Inr words \<Rightarrow> Inl TypeError)"
  by (simp add: get_deck_def get_cards_def get_words_def split: prod.splits sum.splits option.splits)

subsection \<open>The run of the scenario\<close>

lemma fox_clean:
  "clean fox_text = [''The'', ''quick'', ''Fox'', ''jumps'', ''over'', ''the'', ''lazy'', ''dog'',
     ''The'', ''Fox'', ''runs'']"
  by code_simp

lemma fox_uncommon:
  "uncommon_words (new_Wiki2Anki fox_text fox_table 5000) = [''Fox'', ''jumps'']"
  by code_simp

lemma fox_resolved:
  "get_definitions fox_source (map new_Word [''Fox'', ''jumps'']) (new_definer ''english'') =
   (Inr [\<lparr>w_word = ''Fox'', w_definition = Some ''a wild canine''\<rparr>,
         \<lparr>w_word = ''jumps'', w_definition = None\<rparr>],
    \<lparr>language = ''english'', entry = Some [], fetched = [''Fox'', ''fox'', ''jumps'']\<rparr>)"
  by code_simp

lemma fox_cards:
  "as_string (map from_word [\<lparr>w_word = ''Fox'', w_definition = Some ''a wild canine''\<rparr>,
         \<lparr>w_word = ''jumps'', w_definition = None\<rparr>]) =
   ''Fox; '' @ [dquote] @ ''a wild canine'' @ [dquote]"
  by (simp add: as_string_def surviving_def from_word_def get_flashcard_def format_definition_def)

lemma fox_loop:
  "get_definitions fox_source
     (map new_Word (uncommon_words (new_Wiki2Anki fox_text fox_table 5000)))
     (definer (new_Wiki2Anki fox_text fox_table 5000)) =
   (Inr [\<lparr>w_word = ''Fox'', w_definition = Some ''a wild canine''\<rparr>,
         \<lparr>w_word = ''jumps'', w_definition = None\<rparr>],
    \<lparr>language = ''english'', entry = Some [], fetched = [''Fox'', ''fox'', ''jumps'']\<rparr>)"
  by (simp only: fox_uncommon definer_new_Wiki2Anki fox_resolved)

subsection \<open>The cap on the words resolved\<close>

lemma select_words_filter:
  "0 \<le> n \<Longrightarrow>
   select_words n cm ws =
   filter (\<lambda>w. \<not> (w \<in> set cm \<or> lower w \<in> set cm)) (take (nat n) (drop_duplicates ws))"
  by (simp add: select_words_def Let_def head_def boolean_index_common_mask)

lemma select_words_prefix:
  "prefix (select_words n cm ws)
     (filter (\<lambda>w. \<not> (w \<in> set cm \<or> lower w \<in> set cm)) (drop_duplicates ws))"
proof -
  have "select_words n cm ws =
      filter (\<lambda>w. \<not> (w \<in> set cm \<or> lower w \<in> set cm)) (head n (drop_duplicates ws))"
    by (simp add: select_words_def Let_def boolean_index_common_mask)
  then show ?thesis by (simp only: filter_mono_prefix prefix_head)
qed

lemma select_words_one:
  "select_words 1 cm ws = [] \<or>
   select_words 1 cm ws =
     [hd (filter (\<lambda>w. \<not> (w \<in> set cm \<or> lower w \<in> set cm)) (drop_duplicates ws))]"
proof (cases "drop_duplicates ws")
  case Nil
  then show ?thesis by (simp add: select_words_filter)
next
  case (Cons y ys)
  then show ?thesis by (simp add: select_words_filter)
qed

lemma length_surviving: "length (surviving deck) \<le> length deck"
  unfolding surviving_def
  by (rule order_trans [OF length_filter_le length_filter_le])

lemma hundred_and_one:
  "length (uncommon_words (new_Wiki2Anki (hundred_words @ ''zz'') a0_table 5000)) = 99"
  "''zz'' \<notin> set (uncommon_words (new_Wiki2Anki (hundred_words @ ''zz'') a0_table 5000))"
  "length (drop_duplicates (clean (hundred_words @ ''zz''))) = 101"
  "length (filter (\<lambda>w. \<not> (w \<in> set [''a0''] \<or> lower w \<in> set [''a0'']))
     (drop_duplicates (clean (hundred_words @ ''zz'')))) = 100"
  by code_simp+

lemma the_fox_cat:
  "select_words 1 [''the''] [''the'', ''fox'', ''the'', ''cat''] = []"
  "select_words 2 [''the''] [''the'', ''fox'', ''the'', ''cat''] = [''fox'']"
  "select_words 1 [''the''] [''fox'', ''the'', ''cat''] = [''fox'']"
  by code_simp+

text \<open>
  C6. For every input, after deduplication \<^verbatim>\<open>get_words\<close> truncates to the first \<open>n\<close>
  tokens, where \<open>n\<close> is the argument of \<^verbatim>\<open>df.head\<close> (the source writes 100), before it
  filters by frequency and resolves: the words resolved are exactly the uncommon ones of
  the first \<open>n\<close> deduplicated tokens, so they are at most \<open>n\<close>, at most 100 in the source,
  which makes at most 200 lookups, and the deck of the words resolved has at most 100
  entries. The truncation keeps a prefix of the deduplicated tokens, and the words
  resolved are a prefix of the deduplicated and filtered tokens. With \<open>n = 1\<close> there is at
  most one word, the first of the deduplicated and filtered tokens.
\<close>

theorem select_words_cap:
  "uncommon_words app = select_words 100 (common app) (clean (wiki_text app))
   \<and> (0 \<le> n \<longrightarrow>
        select_words n cm ws =
          filter (\<lambda>w. \<not> (w \<in> set cm \<or> lower w \<in> set cm)) (take (nat n) (drop_duplicates ws))
        \<and> length (select_words n cm ws) \<le> nat n)
   \<and> prefix (head n (drop_duplicates ws)) (drop_duplicates ws)
   \<and> prefix (select_words n cm ws)
        (filter (\<lambda>w. \<not> (w \<in> set cm \<or> lower w \<in> set cm)) (drop_duplicates ws))
   \<and> (select_words 1 cm ws = [] \<or>
       select_words 1 cm ws =
         [hd (filter (\<lambda>w. \<not> (w \<in> set cm \<or> lower w \<in> set cm)) (drop_duplicates ws))])
   \<and> length (uncommon_words app) \<le> 100
   \<and> length (fetched (definer (snd (get_words fetch app)))) \<le> length (fetched (definer app)) + 200
   \<and> (get_definitions fetch (map new_Word (uncommon_words app)) (definer app) = (Inr rs, d') \<longrightarrow>
        length (surviving (map from_word rs)) \<le> 100)"
proof (intro conjI impI)
  show "uncommon_words app = select_words 100 (common app) (clean (wiki_text app))"
    by (rule uncommon_words_def)
next
  assume n: "0 \<le> n"
  then show eq: "select_words n cm ws =
      filter (\<lambda>w. \<not> (w \<in> set cm \<or> lower w \<in> set cm)) (take (nat n) (drop_duplicates ws))"
    by (rule select_words_filter)
  have "length (select_words n cm ws) \<le> length (take (nat n) (drop_duplicates ws))"
    unfolding eq by (rule length_filter_le)
  then show "length (select_words n cm ws) \<le> nat n" by simp
next
  show "prefix (head n (drop_duplicates ws)) (drop_duplicates ws)" by (rule prefix_head)
next
  show "prefix (select_words n cm ws)
        (filter (\<lambda>w. \<not> (w \<in> set cm \<or> lower w \<in> set cm)) (drop_duplicates ws))"
    by (rule select_words_prefix)
next
  show "select_words 1 cm ws = [] \<or>
       select_words 1 cm ws =
         [hd (filter (\<lambda>w. \<not> (w \<in> set cm \<or> lower w \<in> set cm)) (drop_duplicates ws))]"
    by (rule select_words_one)
next
  have "length (uncommon_words app) \<le> length (take 100 (drop_duplicates (clean (wiki_text app))))"
    unfolding uncommon_words_filter by (rule length_filter_le)
  then show len: "length (uncommon_words app) \<le> 100" by simp
  obtain more where more:
    "fetched (snd (get_definitions fetch (map new_Word (uncommon_words app)) (definer app))) =
       fetched (definer app) @ more"
    "length more \<le> 2 * length (map new_Word (uncommon_words app))"
    using fetched_get_definitions [of fetch "map new_Word (uncommon_words app)" "definer app"]
    by auto
  with len show "length (fetched (definer (snd (get_words fetch app)))) \<le>
      length (fetched (definer app)) + 200"
    by (simp add: get_words_definer)
  assume "get_definitions fetch (map new_Word (uncommon_words app)) (definer app) = (Inr rs, d')"
  then have "map w_word rs = map w_word (map new_Word (uncommon_words app))"
    by (rule get_definitions_words)
  then have "length rs = length (uncommon_words app)"
    by (metis length_map)
  moreover have "length (surviving (map from_word rs)) \<le> length (map from_word rs)"
    by (rule length_surviving)
  ultimately show "length (surviving (map from_word rs)) \<le> 100" using len by simp
qed

text \<open>
  A page of 101 different words whose first word is the one common word: the source
  truncates to the first 100 and then drops the common one, which leaves 99 words and not
  the last word of the page; filtering first would leave 100. With \<open>n = 1\<close>, a common
  first token leaves no word, and an uncommon one is the word resolved. On the page of the
  scenario the loop returns two words, and their deck has one entry.
\<close>

theorem select_words_cap_witness:
  "length (uncommon_words (new_Wiki2Anki (hundred_words @ ''zz'') a0_table 5000)) = 99
   \<and> ''zz'' \<notin> set (uncommon_words (new_Wiki2Anki (hundred_words @ ''zz'') a0_table 5000))
   \<and> length (filter (\<lambda>w. \<not> (w \<in> set [''a0''] \<or> lower w \<in> set [''a0'']))
        (drop_duplicates (clean (hundred_words @ ''zz'')))) = 100
   \<and> select_words 1 [''the''] [''the'', ''fox'', ''the'', ''cat''] = []
   \<and> select_words 1 [''the''] [''fox'', ''the'', ''cat''] = [''fox'']
   \<and> filter (\<lambda>w. \<not> (w \<in> set [''the''] \<or> lower w \<in> set [''the'']))
        (take 2 (drop_duplicates [''the'', ''fox'', ''the'', ''cat''])) = [''fox'']
   \<and> length (surviving (map from_word
        [\<lparr>w_word = ''Fox'', w_definition = Some ''a wild canine''\<rparr>,
         \<lparr>w_word = ''jumps'', w_definition = None\<rparr>])) \<le> 100"
proof -
  note cap = select_words_cap [of "new_Wiki2Anki fox_text fox_table 5000" 2 "[''the'']"
      "[''the'', ''fox'', ''the'', ''cat'']" fox_source
      "[\<lparr>w_word = ''Fox'', w_definition = Some ''a wild canine''\<rparr>,
        \<lparr>w_word = ''jumps'', w_definition = None\<rparr>]"
      "\<lparr>language = ''english'', entry = Some [], fetched = [''Fox'', ''fox'', ''jumps'']\<rparr>"]
  have two: "(0::int) \<le> 2" by simp
  have "select_words 2 [''the''] [''the'', ''fox'', ''the'', ''cat''] =
      filter (\<lambda>w. \<not> (w \<in> set [''the''] \<or> lower w \<in> set [''the'']))
        (take (nat 2) (drop_duplicates [''the'', ''fox'', ''the'', ''cat'']))"
    using cap [THEN conjunct2, THEN conjunct1] two by simp
  then have a: "filter (\<lambda>w. \<not> (w \<in> set [''the''] \<or> lower w \<in> set [''the'']))
        (take 2 (drop_duplicates [''the'', ''fox'', ''the'', ''cat''])) = [''fox'']"
    by (simp add: the_fox_cat(2))
  have b: "length (surviving (map from_word
        [\<lparr>w_word = ''Fox'', w_definition = Some ''a wild canine''\<rparr>,
         \<lparr>w_word = ''jumps'', w_definition = None\<rparr>])) \<le> 100"
    using cap [THEN conjunct2, THEN conjunct2, THEN conjunct2, THEN conjunct2, THEN conjunct2,
        THEN conjunct2, THEN conjunct2] fox_loop by (rule mp)
  from a b hundred_and_one the_fox_cat show ?thesis by simp
qed

subsection \<open>The empty token\<close>

lemma leading_space_run:
  "fst (get_words fox_source (new_Wiki2Anki '' Fox'' [] 5000)) = Inr None"
  "fetched (definer (snd (get_words fox_source (new_Wiki2Anki '' Fox'' [] 5000)))) =
     [[], ''Fox'', ''fox'']"
  "uncommon_words (new_Wiki2Anki '' Fox'' [] 5000) = [[], ''Fox'']"
  "take 100 (drop_duplicates (clean '' Fox'')) = [[], ''Fox'']"
  "fst (get_definitions fox_source (map new_Word (uncommon_words (new_Wiki2Anki '' Fox'' [] 5000)))
     (definer (new_Wiki2Anki '' Fox'' [] 5000))) =
   Inr [\<lparr>w_word = [], w_definition = None\<rparr>,
        \<lparr>w_word = ''Fox'', w_definition = Some ''a wild canine''\<rparr>]"
  by code_simp+

text \<open>
  C9, as amended. A text that starts with whitespace has the empty string as its first
  token. An empty token among the first 100 different tokens of the text passes the
  frequency filter when the empty string is not in the table of common words. When the
  text starts with whitespace, the empty token is the first word resolved and its lookup
  is the first one made; in general it is looked up when no lookup raises. The loop drops
  no word, and the formatter keeps no entry whose word is empty.
\<close>

theorem empty_token_reaches_definer:
  "(is_space c \<longrightarrow> clean (c # s) \<noteq> [] \<and> hd (clean (c # s)) = [])
   \<and> ([] \<in> set (take 100 (drop_duplicates (clean (wiki_text app)))) \<and> [] \<notin> set (common app) \<longrightarrow>
        [] \<in> set (uncommon_words app))
   \<and> (wiki_text app = c # s \<and> is_space c \<and> [] \<notin> set (common app) \<longrightarrow>
        uncommon_words app \<noteq> [] \<and> hd (uncommon_words app) = [] \<and>
        prefix (fetched (definer app) @ [[]]) (fetched (definer (snd (get_words fetch app)))))
   \<and> ([] \<in> set (uncommon_words app) \<and> fst (get_words fetch app) = Inr r \<longrightarrow>
        [] \<in> set (fetched (definer (snd (get_words fetch app)))))
   \<and> (fst (get_definitions fetch (map new_Word (uncommon_words app)) (definer app)) = Inr ws \<longrightarrow>
        map w_word ws = uncommon_words app)
   \<and> (\<forall>card \<in> set (surviving deck). fc_word card \<noteq> [])"
proof (intro conjI impI)
  assume "is_space c"
  then show "clean (c # s) \<noteq> []" "hd (clean (c # s)) = []"
    by (simp_all add: clean_leading)
next
  assume "[] \<in> set (take 100 (drop_duplicates (clean (wiki_text app)))) \<and> [] \<notin> set (common app)"
  then show "[] \<in> set (uncommon_words app)"
    by (simp add: uncommon_words_filter lower_Nil)
next
  assume a: "wiki_text app = c # s \<and> is_space c \<and> [] \<notin> set (common app)"
  then obtain rest where rest: "uncommon_words app = [] # rest"
    using uncommon_words_leading [of app c s] by auto
  then show "uncommon_words app \<noteq> []" "hd (uncommon_words app) = []" by simp_all
  have "prefix (fetched (definer app) @ [w_word (new_Word [])])
          (fetched (snd (get_definitions fetch (new_Word [] # map new_Word rest) (definer app))))"
    by (rule get_definitions_first_fetched)
  then show "prefix (fetched (definer app) @ [[]]) (fetched (definer (snd (get_words fetch app))))"
    by (simp add: get_words_definer rest new_Word_def)
next
  assume a: "[] \<in> set (uncommon_words app) \<and> fst (get_words fetch app) = Inr r"
  obtain res d' where loop:
    "get_definitions fetch (map new_Word (uncommon_words app)) (definer app) = (res, d')"
    by (cases "get_definitions fetch (map new_Word (uncommon_words app)) (definer app)")
  with a obtain ws' where "res = Inr ws'"
    by (cases res) (simp_all add: get_words_result)
  with loop have "set (map w_word (map new_Word (uncommon_words app))) \<subseteq> set (fetched d')"
    by (intro get_definitions_all_fetched) simp
  then have "set (uncommon_words app) \<subseteq> set (fetched d')"
    by (simp only: map_w_word_new_Word)
  with a loop show "[] \<in> set (fetched (definer (snd (get_words fetch app))))"
    by (auto simp: get_words_definer)
next
  assume a: "fst (get_definitions fetch (map new_Word (uncommon_words app)) (definer app)) = Inr ws"
  then have "get_definitions fetch (map new_Word (uncommon_words app)) (definer app) =
      (Inr ws, snd (get_definitions fetch (map new_Word (uncommon_words app)) (definer app)))"
    by (metis prod.collapse)
  then have "map w_word ws = map w_word (map new_Word (uncommon_words app))"
    by (rule get_definitions_words)
  then show "map w_word ws = uncommon_words app"
    by (simp only: map_w_word_new_Word)
next
  show "\<forall>card \<in> set (surviving deck). fc_word card \<noteq> []"
    by (simp add: surviving_def)
qed

theorem empty_token_reaches_definer_witness:
  "hd (clean '' Fox'') = []
   \<and> [] \<in> set (uncommon_words (new_Wiki2Anki '' Fox'' [] 5000))
   \<and> hd (uncommon_words (new_Wiki2Anki '' Fox'' [] 5000)) = []
   \<and> prefix [[]] (fetched (definer (snd (get_words fox_source (new_Wiki2Anki '' Fox'' [] 5000)))))
   \<and> [] \<in> set (fetched (definer (snd (get_words fox_source (new_Wiki2Anki '' Fox'' [] 5000)))))
   \<and> uncommon_words (new_Wiki2Anki '' Fox'' [] 5000) = [[], ''Fox'']
   \<and> [] \<notin> fc_word ` set (surviving two_cards)"
proof -
  let ?app = "new_Wiki2Anki '' Fox'' [] 5000"
  note reaches = empty_token_reaches_definer [of "CHR '' ''" "''Fox''" ?app fox_source None
      "[\<lparr>w_word = [], w_definition = None\<rparr>,
        \<lparr>w_word = ''Fox'', w_definition = Some ''a wild canine''\<rparr>]" two_cards]
  have sp: "is_space CHR '' ''" by (rule spaced_text(3))
  have body: "wiki_text ?app = CHR '' '' # ''Fox''" by (simp only: wiki_text_new_Wiki2Anki)
  have cm: "[] \<notin> set (common ?app)"
    by (simp add: common_new_Wiki2Anki common_words_def head_def)
  have ok: "fst (get_words fox_source ?app) = Inr None" by (rule leading_space_run(1))
  have a: "hd (clean '' Fox'') = []"
    using reaches [THEN conjunct1] sp by simp
  have "[] \<in> set (take 100 (drop_duplicates (clean (wiki_text ?app))))"
    by (simp only: body leading_space_run(4)) simp
  with cm have b: "[] \<in> set (uncommon_words ?app)"
    using reaches [THEN conjunct2, THEN conjunct1] by simp
  have c: "uncommon_words ?app \<noteq> [] \<and> hd (uncommon_words ?app) = [] \<and>
      prefix (fetched (definer ?app) @ [[]]) (fetched (definer (snd (get_words fox_source ?app))))"
    using reaches [THEN conjunct2, THEN conjunct2, THEN conjunct1] body sp cm by simp
  have d: "[] \<in> set (fetched (definer (snd (get_words fox_source ?app))))"
    using reaches [THEN conjunct2, THEN conjunct2, THEN conjunct2, THEN conjunct1] b ok by simp
  have e: "map w_word [\<lparr>w_word = [], w_definition = None\<rparr>,
        \<lparr>w_word = ''Fox'', w_definition = Some ''a wild canine''\<rparr>] = uncommon_words ?app"
    using reaches [THEN conjunct2, THEN conjunct2, THEN conjunct2, THEN conjunct2, THEN conjunct1]
      leading_space_run(5) by (rule mp)
  have f: "\<forall>card \<in> set (surviving two_cards). fc_word card \<noteq> []"
    by (rule reaches [THEN conjunct2, THEN conjunct2, THEN conjunct2, THEN conjunct2, THEN conjunct2])
  have g: "fetched (definer ?app) = []" by (simp add: definer_new_Wiki2Anki new_definer_def)
  from a b c d e f g show ?thesis by auto
qed

lemma hundred_clean: "last (clean hundred_words) = [] \<and> length (clean hundred_words) = 101"
  by code_simp

lemma hundred_uncommon: "[] \<notin> set (uncommon_words (new_Wiki2Anki hundred_words [] 5000))"
  by code_simp

text \<open>
  The claim as stated, for every text whose tokens include the empty string, fails when
  the empty token comes after 100 different words: the truncation drops it, and it never
  reaches the definer.
\<close>

theorem empty_token_counterexample:
  "[] \<in> set (clean hundred_words)
   \<and> [] \<notin> set (uncommon_words (new_Wiki2Anki hundred_words [] 5000))
   \<and> [] \<notin> set (fetched (definer (snd (get_words fox_source (new_Wiki2Anki hundred_words [] 5000)))))"
proof -
  let ?app = "new_Wiki2Anki hundred_words [] 5000"
  have "clean hundred_words \<noteq> []" using hundred_clean by auto
  then have "last (clean hundred_words) \<in> set (clean hundred_words)" by (rule last_in_set)
  then have a: "[] \<in> set (clean hundred_words)" using hundred_clean by simp
  have b: "[] \<notin> set (uncommon_words ?app)" by (rule hundred_uncommon)
  then have c: "[] \<notin> lower ` set (uncommon_words ?app)"
    by (auto simp: lower_eq_Nil)
  have "set (fetched (definer (snd (get_words fox_source ?app)))) \<subseteq>
        set (fetched (definer ?app)) \<union> set (uncommon_words ?app) \<union> lower ` set (uncommon_words ?app)"
    unfolding get_words_definer by (rule fetched_subset_words)
  moreover have "set (fetched (definer ?app)) = {}"
    by (simp add: new_Wiki2Anki_def new_definer_def)
  ultimately have "set (fetched (definer (snd (get_words fox_source ?app)))) \<subseteq>
        set (uncommon_words ?app) \<union> lower ` set (uncommon_words ?app)"
    by simp
  with b c have "[] \<notin> set (fetched (definer (snd (get_words fox_source ?app))))"
    by auto
  with a b show ?thesis by simp
qed

subsection \<open>The end-to-end scenario\<close>

text \<open>
  C2. The claim: for the text \<^verbatim>\<open>The quick Fox jumps over the lazy dog. The Fox runs.\<close>,
  a table with the, quick, over, lazy, dog and runs, and a source that knows \<^verbatim>\<open>fox\<close>
  only, the pipeline gives a deck of one entry, \<^verbatim>\<open>Fox; "a wild canine"\<close>. In the
  source the loop of \<^verbatim>\<open>get_words\<close> computes the two words \<^verbatim>\<open>Fox\<close> (defined by the
  lookup of \<^verbatim>\<open>fox\<close>) and \<^verbatim>\<open>jumps\<close> (not defined), from which the formatter would
  write that entry; but \<^verbatim>\<open>get_words\<close> has no \<^verbatim>\<open>return\<close>, it returns \<^verbatim>\<open>None\<close>, and
  \<^verbatim>\<open>get_deck\<close> raises TypeError.
\<close>

theorem get_deck_fox_raises:
  "fst (get_deck fox_source (new_Wiki2Anki fox_text fox_table 5000)) = Inl TypeError
   \<and> fst (get_words fox_source (new_Wiki2Anki fox_text fox_table 5000)) = Inr None
   \<and> get_definitions fox_source
        (map new_Word (uncommon_words (new_Wiki2Anki fox_text fox_table 5000)))
        (definer (new_Wiki2Anki fox_text fox_table 5000)) =
      (Inr [\<lparr>w_word = ''Fox'', w_definition = Some ''a wild canine''\<rparr>,
            \<lparr>w_word = ''jumps'', w_definition = None\<rparr>],
       \<lparr>language = ''english'', entry = Some [], fetched = [''Fox'', ''fox'', ''jumps'']\<rparr>)
   \<and> as_string (map from_word [\<lparr>w_word = ''Fox'', w_definition = Some ''a wild canine''\<rparr>,
         \<lparr>w_word = ''jumps'', w_definition = None\<rparr>]) =
      ''Fox; '' @ [dquote] @ ''a wild canine'' @ [dquote]"
proof -
  have loop: "get_definitions fox_source
        (map new_Word (uncommon_words (new_Wiki2Anki fox_text fox_table 5000)))
        (definer (new_Wiki2Anki fox_text fox_table 5000)) =
      (Inr [\<lparr>w_word = ''Fox'', w_definition = Some ''a wild canine''\<rparr>,
            \<lparr>w_word = ''jumps'', w_definition = None\<rparr>],
       \<lparr>language = ''english'', entry = Some [], fetched = [''Fox'', ''fox'', ''jumps'']\<rparr>)"
    by (simp only: fox_uncommon definer_new_Wiki2Anki fox_resolved)
  have "fst (get_deck fox_source (new_Wiki2Anki fox_text fox_table 5000)) = Inl TypeError"
    by (simp only: get_deck_result loop fst_conv sum.case)
  moreover have "fst (get_words fox_source (new_Wiki2Anki fox_text fox_table 5000)) = Inr None"
    by (simp only: get_words_result loop fst_conv sum.case)
  ultimately show ?thesis using loop fox_cards by (simp only: simp_thms)
qed

lemma abab_run:
  "fst (get_deck fox_source (new_Wiki2Anki ''a b a c b'' [] 5000)) = Inl TypeError"
  "clean ''a b a c b'' = [''a'', ''b'', ''a'', ''c'', ''b'']"
  "uncommon_words (new_Wiki2Anki ''a b a c b'' [] 5000) = [''a'', ''b'', ''c'']"
  by code_simp+

text \<open>
  Whatever the source and the page, \<^verbatim>\<open>get_deck\<close> raises an error: the missing
  \<^verbatim>\<open>return\<close> of \<^verbatim>\<open>get_words\<close>, seen under C2.
\<close>

lemma get_deck_raises:
  "fst (get_deck fetch app) = Inl TypeError \<or> fst (get_deck fetch app) = Inl IndexError"
proof (cases "fst (get_definitions fetch (map new_Word (uncommon_words app)) (definer app))")
  case (Inl e)
  then have "fst (get_deck fetch app) = Inl e" by (simp add: get_deck_result)
  then show ?thesis by (cases e) simp_all
next
  case (Inr words)
  then show ?thesis by (simp add: get_deck_result)
qed

subsection \<open>The order of the words\<close>

lemma stages_keep_order:
  "subseq (uncommon_words app) (clean (wiki_text app))"
  "distinct (uncommon_words app)"
  "subseq (surviving deck) deck"
proof -
  have "subseq (uncommon_words app) (take 100 (drop_duplicates (clean (wiki_text app))))"
    unfolding uncommon_words_filter by (rule subseq_filter_left)
  also have "subseq \<dots> (drop_duplicates (clean (wiki_text app)))"
    by (rule prefix_imp_subseq) (rule take_is_prefix)
  also have "subseq \<dots> (clean (wiki_text app))" by (rule subseq_drop_duplicates)
  finally show "subseq (uncommon_words app) (clean (wiki_text app))" .
  show "distinct (uncommon_words app)"
    unfolding uncommon_words_filter
    by (intro distinct_filter distinct_take distinct_drop_duplicates)
  have "subseq (surviving deck) (filter (\<lambda>card. fc_definition card \<noteq> None) deck)"
    unfolding surviving_def by (rule subseq_filter_left)
  also have "subseq \<dots> deck" by (rule subseq_filter_left)
  finally show "subseq (surviving deck) deck" .
qed

lemma map_fc_word_from_word: "map fc_word (map from_word ws) = map w_word ws"
  by (induction ws) (simp_all add: from_word_def)

lemma deck_words_of_loop:
  assumes "get_definitions fetch (map new_Word (uncommon_words app)) (definer app) = (Inr ws, d')"
  shows "map w_word ws = uncommon_words app"
    and "subseq (map fc_word (surviving (map from_word ws))) (uncommon_words app)"
    and "distinct (map fc_word (surviving (map from_word ws)))"
proof -
  from assms have "map w_word ws = map w_word (map new_Word (uncommon_words app))"
    by (rule get_definitions_words)
  then show words: "map w_word ws = uncommon_words app"
    by (simp only: map_w_word_new_Word)
  have cards: "map fc_word (map from_word ws) = uncommon_words app"
    by (simp only: map_fc_word_from_word words)
  have "subseq (map fc_word (surviving (map from_word ws))) (map fc_word (map from_word ws))"
    by (rule subseq_map) (rule stages_keep_order(3))
  then show "subseq (map fc_word (surviving (map from_word ws))) (uncommon_words app)"
    by (simp only: cards)
  have "distinct (map fc_word (map from_word ws))"
    by (simp only: cards stages_keep_order(2))
  then show "distinct (map fc_word (surviving (map from_word ws)))"
    unfolding surviving_def by (intro distinct_map_filter)
qed

text \<open>
  C5. For every input text the order of the words is kept through the pipeline.
  Deduplication keeps a value exactly where no earlier row holds it, so it removes the
  repeats of a string only and keeps its first occurrence; the words resolved are the
  uncommon ones of the first 100 deduplicated tokens, a subsequence of the tokens of the
  text with no repeats; the loop resolves them all in that order and drops none; and the
  formatter writes the entries that it keeps in the order of the deck. So the words of the
  deck made of the words that the loop returns stand in the order of the text, each once.
  When \<^verbatim>\<open>get_words\<close> returns, its lookups hold the words resolved in that order.
  (That \<^verbatim>\<open>get_words\<close> then returns \<^verbatim>\<open>None\<close> is the defect of C2 and is left out here.)
\<close>

theorem pipeline_keeps_order:
  "drop_duplicates (xs @ [x]) = drop_duplicates xs @ (if x \<in> set xs then [] else [x])
   \<and> distinct (drop_duplicates xs)
   \<and> set (drop_duplicates xs) = set xs
   \<and> subseq (drop_duplicates xs) xs
   \<and> drop_duplicates [''a'', ''b'', ''a'', ''c'', ''b''] = [''a'', ''b'', ''c'']
   \<and> uncommon_words app =
       filter (\<lambda>w. \<not> (w \<in> set (common app) \<or> lower w \<in> set (common app)))
         (take 100 (drop_duplicates (clean (wiki_text app))))
   \<and> subseq (uncommon_words app) (clean (wiki_text app))
   \<and> distinct (uncommon_words app)
   \<and> (get_definitions fetch (map new_Word (uncommon_words app)) (definer app) = (Inr ws, d') \<longrightarrow>
        map w_word ws = uncommon_words app
        \<and> subseq (map fc_word (surviving (map from_word ws))) (clean (wiki_text app))
        \<and> distinct (map fc_word (surviving (map from_word ws))))
   \<and> (fst (get_words fetch app) = Inr r \<longrightarrow>
        subseq (uncommon_words app)
          (drop (length (fetched (definer app))) (fetched (definer (snd (get_words fetch app))))))
   \<and> subseq (surviving deck) deck
   \<and> as_string deck = join [newline] (map get_flashcard (surviving deck))"
proof (intro conjI impI)
  show "drop_duplicates (xs @ [x]) = drop_duplicates xs @ (if x \<in> set xs then [] else [x])"
    by (rule drop_duplicates_snoc)
  show "distinct (drop_duplicates xs)" by (rule distinct_drop_duplicates)
  show "set (drop_duplicates xs) = set xs" by (rule set_drop_duplicates)
  show "subseq (drop_duplicates xs) xs" by (rule subseq_drop_duplicates)
  show "drop_duplicates [''a'', ''b'', ''a'', ''c'', ''b''] = [''a'', ''b'', ''c'']"
    by (rule drop_duplicates_example)
  show "uncommon_words app =
       filter (\<lambda>w. \<not> (w \<in> set (common app) \<or> lower w \<in> set (common app)))
         (take 100 (drop_duplicates (clean (wiki_text app))))"
    by (rule uncommon_words_filter)
  show order: "subseq (uncommon_words app) (clean (wiki_text app))"
    by (rule stages_keep_order(1))
  show "distinct (uncommon_words app)" by (rule stages_keep_order(2))
  show "subseq (surviving deck) deck" by (rule stages_keep_order(3))
  show "as_string deck = join [newline] (map get_flashcard (surviving deck))"
    by (rule as_string_def)
  assume loop: "get_definitions fetch (map new_Word (uncommon_words app)) (definer app) = (Inr ws, d')"
  then show "map w_word ws = uncommon_words app" by (rule deck_words_of_loop(1))
  from loop have "subseq (map fc_word (surviving (map from_word ws))) (uncommon_words app)"
    by (rule deck_words_of_loop(2))
  also note order
  finally show "subseq (map fc_word (surviving (map from_word ws))) (clean (wiki_text app))" .
  from loop show "distinct (map fc_word (surviving (map from_word ws)))"
    by (rule deck_words_of_loop(3))
next
  assume ret: "fst (get_words fetch app) = Inr r"
  obtain res d1 where run:
    "get_definitions fetch (map new_Word (uncommon_words app)) (definer app) = (res, d1)"
    by (cases "get_definitions fetch (map new_Word (uncommon_words app)) (definer app)")
  with ret obtain rs where "res = Inr rs"
    by (cases res) (simp_all add: get_words_result)
  with run obtain more where more: "fetched d1 = fetched (definer app) @ more"
      "subseq (map w_word (map new_Word (uncommon_words app))) more"
    using get_definitions_fetched_order [of fetch "map new_Word (uncommon_words app)" "definer app" rs d1]
    by auto
  from more(2) have "subseq (uncommon_words app) more" by (simp only: map_w_word_new_Word)
  moreover have "definer (snd (get_words fetch app)) = d1"
    by (simp add: get_words_definer run)
  ultimately show "subseq (uncommon_words app)
      (drop (length (fetched (definer app))) (fetched (definer (snd (get_words fetch app)))))"
    using more(1) by simp
qed

text \<open>
  On the page of the scenario the loop returns \<^verbatim>\<open>Fox\<close> and \<^verbatim>\<open>jumps\<close>, the third and the
  fourth token of the text, and the deck of these words holds \<^verbatim>\<open>Fox\<close>.
\<close>

theorem pipeline_keeps_order_witness:
  "map w_word [\<lparr>w_word = ''Fox'', w_definition = Some ''a wild canine''\<rparr>,
               \<lparr>w_word = ''jumps'', w_definition = None\<rparr>] =
     uncommon_words (new_Wiki2Anki fox_text fox_table 5000)
   \<and> map fc_word (surviving (map from_word
        [\<lparr>w_word = ''Fox'', w_definition = Some ''a wild canine''\<rparr>,
         \<lparr>w_word = ''jumps'', w_definition = None\<rparr>])) = [''Fox'']
   \<and> subseq [''Fox'']
        [''The'', ''quick'', ''Fox'', ''jumps'', ''over'', ''the'', ''lazy'', ''dog'',
         ''The'', ''Fox'', ''runs'']
   \<and> uncommon_words (new_Wiki2Anki ''a b a c b'' [] 5000) = [''a'', ''b'', ''c'']
   \<and> subseq [''Fox'', ''jumps''] [''Fox'', ''fox'', ''jumps'']
   \<and> fetched (definer (snd (get_words fox_source (new_Wiki2Anki fox_text fox_table 5000)))) =
       [''Fox'', ''fox'', ''jumps'']"
proof -
  let ?ws = "[\<lparr>w_word = ''Fox'', w_definition = Some ''a wild canine''\<rparr>,
              \<lparr>w_word = ''jumps'', w_definition = None\<rparr>]"
  note order = pipeline_keeps_order [of _ _ "new_Wiki2Anki fox_text fox_table 5000" fox_source ?ws
      "\<lparr>language = ''english'', entry = Some [], fetched = [''Fox'', ''fox'', ''jumps'']\<rparr>" None]
  have run: "fetched (definer (snd (get_words fox_source (new_Wiki2Anki fox_text fox_table 5000)))) =
       [''Fox'', ''fox'', ''jumps'']"
    by (simp add: get_words_definer fox_loop)
  have ret: "fst (get_words fox_source (new_Wiki2Anki fox_text fox_table 5000)) = Inr None"
    by (simp add: get_words_result fox_loop)
  have "subseq (uncommon_words (new_Wiki2Anki fox_text fox_table 5000))
      (drop (length (fetched (definer (new_Wiki2Anki fox_text fox_table 5000))))
        (fetched (definer (snd (get_words fox_source (new_Wiki2Anki fox_text fox_table 5000))))))"
    using order [THEN conjunct2, THEN conjunct2, THEN conjunct2, THEN conjunct2, THEN conjunct2,
        THEN conjunct2, THEN conjunct2, THEN conjunct2, THEN conjunct2, THEN conjunct1] ret
    by (rule mp)
  then have lookups: "subseq [''Fox'', ''jumps''] [''Fox'', ''fox'', ''jumps'']"
    by (simp only: run fox_uncommon definer_new_Wiki2Anki) (simp add: new_definer_def)
  have loop: "map w_word ?ws = uncommon_words (new_Wiki2Anki fox_text fox_table 5000)
      \<and> subseq (map fc_word (surviving (map from_word ?ws)))
          (clean (wiki_text (new_Wiki2Anki fox_text fox_table 5000)))
      \<and> distinct (map fc_word (surviving (map from_word ?ws)))"
    using order [THEN conjunct2, THEN conjunct2, THEN conjunct2, THEN conjunct2, THEN conjunct2,
        THEN conjunct2, THEN conjunct2, THEN conjunct2, THEN conjunct1] fox_loop
    by (rule mp)
  have deck: "map fc_word (surviving (map from_word ?ws)) = [''Fox'']"
    by (simp add: surviving_def from_word_def)
  from loop have "subseq [''Fox''] (clean fox_text)"
    by (simp only: deck wiki_text_new_Wiki2Anki)
  then have "subseq [''Fox'']
        [''The'', ''quick'', ''Fox'', ''jumps'', ''over'', ''the'', ''lazy'', ''dog'',
         ''The'', ''Fox'', ''runs'']"
    by (simp only: fox_clean)
  with loop deck abab_run(3) lookups run show ?thesis by simp
qed

end
